theory Spec2Isabelle
  imports Complex_Main "HOL-Library.AList"
begin

section \<open>JavaScript values used by the frontend\<close>

text \<open>
  The frontend (\<^verbatim>\<open>src/utils/api.js\<close> and \<^verbatim>\<open>components/Chatbot\<close>) only stores, tests and
  compares the values it receives from the backend. A parsed JSON body is a \<open>json\<close> tree.
  A number is held as its canonical decimal text (what \<^verbatim>\<open>String(n)\<close> returns), because the
  modelled code never computes with numbers. \<open>JObj\<close> lists the own properties of a parsed
  object, each key once. \<open>Undefined\<close> is the value of a missing argument or property.
\<close>

datatype json =
    JNull
  | JBool bool
  | JNum string
  | JStr string
  | JArr "json list"
  | JObj "(string \<times> json) list"

datatype jsval = Undefined | Val json

datatype error_kind = Error | TypeError | SyntaxError | AbortError

text \<open>A thrown error object: its constructor and its \<^verbatim>\<open>message\<close>.\<close>

datatype js_error = Thrown (kind: error_kind) (message: string)

text \<open>Truthiness of a value, as \<^verbatim>\<open>||\<close> and \<^verbatim>\<open>!\<close> test it.\<close>

fun truthy :: "json \<Rightarrow> bool" where
  "truthy JNull = False"
| "truthy (JBool b) = b"
| "truthy (JNum s) = (s \<noteq> ''0'')"
| "truthy (JStr s) = (s \<noteq> [])"
| "truthy (JArr xs) = True"
| "truthy (JObj ps) = True"

fun join_comma :: "string list \<Rightarrow> string" where
  "join_comma [] = []"
| "join_comma [s] = s"
| "join_comma (s # t # ss) = s @ '','' @ join_comma (t # ss)"

text \<open>The first error of a list of results, or all the values.\<close>

fun first_error :: "('e + 'a) list \<Rightarrow> 'e + 'a list" where
  "first_error [] = Inr []"
| "first_error (Inl e # rs) = Inl e"
| "first_error (Inr x # rs) = (case first_error rs of Inl e \<Rightarrow> Inl e | Inr xs \<Rightarrow> Inr (x # xs))"

text \<open>
  The string conversion \<^verbatim>\<open>new Error(v)\<close> applies to its argument. An array joins the
  conversions of its elements with commas (\<^verbatim>\<open>null\<close> elements as the empty string). An
  object parsed from JSON prints as \<^verbatim>\<open>[object Object]\<close>, unless it has an own
  \<^verbatim>\<open>toString\<close> property: that property is JSON data, not a function, and the inherited
  \<^verbatim>\<open>valueOf\<close> returns the object, so the conversion throws a TypeError. The error of an
  element is the error of the array.
\<close>

fun ToString :: "json \<Rightarrow> js_error + string" where
  "ToString JNull = Inr ''null''"
| "ToString (JBool b) = Inr (if b then ''true'' else ''false'')"
| "ToString (JNum s) = Inr s"
| "ToString (JStr s) = Inr s"
| "ToString (JArr xs) =
     (case first_error (map (\<lambda>x. if x = JNull then Inr [] else ToString x) xs) of
        Inl e \<Rightarrow> Inl e
      | Inr ss \<Rightarrow> Inr (join_comma ss))"
| "ToString (JObj ps) =
     (if ''toString'' \<in> set (map fst ps)
      then Inl (Thrown TypeError ''Cannot convert object to primitive value'')
      else Inr ''[object Object]'')"

text \<open>
  What \<^verbatim>\<open>throw new Error(v)\<close> throws: the new error with the converted message, or the
  TypeError of the conversion.
\<close>

definition new_Error :: "json \<Rightarrow> js_error" where
  "new_Error v = (case ToString v of Inl e \<Rightarrow> e | Inr s \<Rightarrow> Thrown Error s)"

text \<open>
  Property access \<^verbatim>\<open>v.k\<close> on a parsed JSON value, for the property names the frontend
  reads (\<^verbatim>\<open>message\<close>, \<^verbatim>\<open>response\<close>, \<^verbatim>\<open>sources\<close>, \<^verbatim>\<open>confidence\<close>, \<^verbatim>\<open>id\<close>, \<^verbatim>\<open>created_at\<close>; none of
  them is inherited from a prototype): reading a property of \<^verbatim>\<open>null\<close> throws a TypeError,
  a missing property reads as \<^verbatim>\<open>undefined\<close>.
\<close>

fun get_prop :: "json \<Rightarrow> string \<Rightarrow> js_error + jsval" where
  "get_prop JNull k = Inl (Thrown TypeError (''Cannot read properties of null (reading '' @ [CHR 0x27] @ k @ [CHR 0x27] @ '')''))"
| "get_prop (JObj ps) k = Inr (case map_of ps k of None \<Rightarrow> Undefined | Some v \<Rightarrow> Val v)"
| "get_prop v k = Inr Undefined"

text \<open>\<^verbatim>\<open>v || d\<close> for a default \<open>d\<close>.\<close>

definition or_default :: "jsval \<Rightarrow> json \<Rightarrow> json" where
  "or_default v d = (case v of Undefined \<Rightarrow> d | Val j \<Rightarrow> if truthy j then j else d)"

text \<open>A default parameter \<^verbatim>\<open>p = d\<close>: the default replaces a missing or \<^verbatim>\<open>undefined\<close> argument only.\<close>

definition default_param :: "json \<Rightarrow> jsval \<Rightarrow> jsval" where
  "default_param d v = (case v of Undefined \<Rightarrow> Val d | Val j \<Rightarrow> Val j)"

text \<open>
  \<^verbatim>\<open>JSON.stringify\<close> of an object literal: a property whose value is \<^verbatim>\<open>undefined\<close> is left
  out, every other property is written in order. The result stands for the JSON text that
  denotes it.
\<close>

fun stringify_props :: "(string \<times> jsval) list \<Rightarrow> (string \<times> json) list" where
  "stringify_props [] = []"
| "stringify_props ((k, Undefined) # ps) = stringify_props ps"
| "stringify_props ((k, Val v) # ps) = (k, v) # stringify_props ps"

definition JSON_stringify :: "(string \<times> jsval) list \<Rightarrow> json" where
  "JSON_stringify ps = JObj (stringify_props ps)"

section \<open>The fetch interface\<close>

datatype http_method = GET | POST | PUT

text \<open>
  What \<^verbatim>\<open>fetch(url, options)\<close> is called with; \<open>req_method\<close> is the \<^verbatim>\<open>method\<close> option.
\<close>

record request =
  url :: string
  req_method :: http_method
  headers :: "(string \<times> string) list"
  body :: "json option"

text \<open>
  A response: its HTTP status and what \<^verbatim>\<open>response.json()\<close> settles with (the parsed body,
  or the error it rejects with when the body is not JSON).
\<close>

record response =
  status :: nat
  json_result :: "js_error + json"

text \<open>\<^verbatim>\<open>response.ok\<close>: the status is in the range 200-299.\<close>

definition ok :: "response \<Rightarrow> bool" where
  "ok r = (200 \<le> status r \<and> status r \<le> 299)"

datatype fetch_outcome = Rejected js_error | Resolved response

text \<open>A \<^verbatim>\<open>fetch\<close> that settles every request in the same way.\<close>

definition fetch_always :: "fetch_outcome \<Rightarrow> request \<Rightarrow> fetch_outcome" where
  "fetch_always outcome r = outcome"

text \<open>What a call does besides returning: the requests it sends and what it logs.\<close>

datatype effect =
    Fetch request
  | ConsoleError string js_error
  | PreventDefault

section \<open>The API client\<close>

text \<open>
  \<^verbatim>\<open>queryChatbot(query, chapter = null, selectedText = null)\<close>. \<open>API_BASE_URL\<close> is the
  module constant (the environment's \<^verbatim>\<open>REACT_APP_API_URL\<close> or the deployed backend), \<open>fetch\<close>
  the browser's. \<open>query\<close> is a string, as documented. The result is the list of effects in
  order and either the thrown error or the returned value.
\<close>

definition queryChatbot ::
  "string \<Rightarrow> (request \<Rightarrow> fetch_outcome) \<Rightarrow> string \<Rightarrow> jsval \<Rightarrow> jsval
     \<Rightarrow> effect list \<times> (js_error + json)" where
  "queryChatbot API_BASE_URL fetch query chapter0 selectedText0 =
     (let chapter = default_param JNull chapter0;
          selectedText = default_param JNull selectedText0;
          req = \<lparr>url = API_BASE_URL @ ''/chat'',
                 req_method = POST,
                 headers = [(''Content-Type'', ''application/json'')],
                 body = Some (JSON_stringify
                   [(''query'', Val (JStr query)),
                    (''chapter'', chapter),
                    (''selected_text'', selectedText),
                    (''stream'', Val (JBool False))])\<rparr>;
          tried =
            (case fetch req of
               Rejected e \<Rightarrow> Inl e
             | Resolved response \<Rightarrow>
                 if \<not> ok response then
                   (case json_result response of
                      Inl e \<Rightarrow> Inl e
                    | Inr errorData \<Rightarrow>
                        (case get_prop errorData ''message'' of
                           Inl e \<Rightarrow> Inl e
                         | Inr m \<Rightarrow> Inl (new_Error
                             (or_default m (JStr ''Failed to get response from chatbot'')))))
                 else json_result response)
      in case tried of
           Inl error \<Rightarrow> ([Fetch req, ConsoleError ''Chatbot query error:'' error], Inl error)
         | Inr v \<Rightarrow> ([Fetch req], Inr v))"

text \<open>\<^verbatim>\<open>submitFeedback(messageId, feedback)\<close>, both strings as documented.\<close>

definition submitFeedback ::
  "string \<Rightarrow> (request \<Rightarrow> fetch_outcome) \<Rightarrow> string \<Rightarrow> string
     \<Rightarrow> effect list \<times> (js_error + json)" where
  "submitFeedback API_BASE_URL fetch messageId feedback =
     (let req = \<lparr>url = API_BASE_URL @ ''/chat/'' @ messageId @ ''/feedback'',
                 req_method = PUT,
                 headers = [(''Content-Type'', ''application/json'')],
                 body = Some (JSON_stringify [(''feedback'', Val (JStr feedback))])\<rparr>;
          tried =
            (case fetch req of
               Rejected e \<Rightarrow> Inl e
             | Resolved response \<Rightarrow>
                 if \<not> ok response then
                   (case json_result response of
                      Inl e \<Rightarrow> Inl e
                    | Inr errorData \<Rightarrow>
                        (case get_prop errorData ''message'' of
                           Inl e \<Rightarrow> Inl e
                         | Inr m \<Rightarrow> Inl (new_Error
                             (or_default m (JStr ''Failed to submit feedback'')))))
                 else json_result response)
      in case tried of
           Inl error \<Rightarrow> ([Fetch req, ConsoleError ''Feedback submission error:'' error], Inl error)
         | Inr v \<Rightarrow> ([Fetch req], Inr v))"

text \<open>\<^verbatim>\<open>checkHealth()\<close>: \<^verbatim>\<open>fetch\<close> with the URL alone is a GET without headers or body.\<close>

definition checkHealth ::
  "string \<Rightarrow> (request \<Rightarrow> fetch_outcome) \<Rightarrow> effect list \<times> (js_error + json)" where
  "checkHealth API_BASE_URL fetch =
     (let req = \<lparr>url = API_BASE_URL @ ''/health'', req_method = GET, headers = [], body = None\<rparr>;
          tried =
            (case fetch req of
               Rejected e \<Rightarrow> Inl e
             | Resolved response \<Rightarrow> json_result response)
      in case tried of
           Inl error \<Rightarrow> ([Fetch req, ConsoleError ''Health check error:'' error], Inl error)
         | Inr v \<Rightarrow> ([Fetch req], Inr v))"

section \<open>The chat widget\<close>

datatype msg_type = User | Bot | ErrorMsg

text \<open>
  A \<^verbatim>\<open>Date\<close>: \<^verbatim>\<open>new Date()\<close> at a reading of the clock, or \<^verbatim>\<open>new Date(v)\<close> of a value.
\<close>

datatype js_date = DateNow nat | DateOf jsval

text \<open>
  A message object of the widget. A property the object literal does not set reads as
  \<^verbatim>\<open>undefined\<close>.
\<close>

record message =
  mtype :: msg_type
  content :: jsval
  timestamp :: js_date
  sources :: jsval
  confidence :: jsval
  messageId :: jsval
  feedback :: jsval

text \<open>The component state of \<^verbatim>\<open>Chatbot\<close> (its \<^verbatim>\<open>useState\<close> cells).\<close>

record chatbot_state =
  isOpen :: bool
  messages :: "message list"
  inputValue :: string
  isLoading :: bool
  error :: "string option"

text \<open>
  The white space and line terminators that \<^verbatim>\<open>String.prototype.trim\<close> strips, among the
  code units up to 0xFF that a \<open>char\<close> holds: tab, line feed, vertical tab, form feed,
  carriage return, space and the no-break space U+00A0.
\<close>

definition is_js_space :: "char \<Rightarrow> bool" where
  "is_js_space c =
     (c \<in> set [CHR 0x09, CHR 0x0A, CHR 0x0B, CHR 0x0C, CHR 0x0D, CHR '' '', CHR 0xA0])"

text \<open>
  \<^verbatim>\<open>String.prototype.trim\<close>: the string without the white space at both ends. A
  character of \<open>string\<close> is one code unit up to 0xFF; the white space beyond (U+FEFF, the
  other Unicode space separators, U+2028, U+2029) is outside this type.
\<close>

definition trim :: "string \<Rightarrow> string" where
  "trim s = rev (dropWhile is_js_space (rev (dropWhile is_js_space s)))"

text \<open>The initial state: the greeting, created at clock reading \<open>t\<close>.\<close>

definition initial_state :: "nat \<Rightarrow> chatbot_state" where
  "initial_state t =
     \<lparr>isOpen = False,
      messages = [\<lparr>mtype = Bot,
        content = Val (JStr ''Hi! I'm your AI assistant for the Physical AI & Humanoid Robotics textbook. Ask me anything about the course content!''),
        timestamp = DateNow t, sources = Undefined, confidence = Undefined,
        messageId = Undefined, feedback = Undefined\<rparr>],
      inputValue = [],
      isLoading = False,
      error = None\<rparr>"

text \<open>
  The bot message \<^verbatim>\<open>handleSubmit\<close> builds from the value \<^verbatim>\<open>queryChatbot\<close> returned. The
  first property read throws when the value is \<^verbatim>\<open>null\<close>.
\<close>

definition botMessage :: "json \<Rightarrow> js_error + message" where
  "botMessage response =
     (case get_prop response ''response'' of Inl e \<Rightarrow> Inl e | Inr c \<Rightarrow>
     (case get_prop response ''sources'' of Inl e \<Rightarrow> Inl e | Inr s \<Rightarrow>
     (case get_prop response ''confidence'' of Inl e \<Rightarrow> Inl e | Inr cf \<Rightarrow>
     (case get_prop response ''id'' of Inl e \<Rightarrow> Inl e | Inr i \<Rightarrow>
     (case get_prop response ''created_at'' of Inl e \<Rightarrow> Inl e | Inr d \<Rightarrow>
        Inr \<lparr>mtype = Bot, content = c, timestamp = DateOf d, sources = s,
             confidence = cf, messageId = i, feedback = Undefined\<rparr>)))))"

text \<open>
  \<^verbatim>\<open>handleSubmit(e)\<close>, run to completion on state \<open>st\<close>; \<open>t1\<close> and \<open>t2\<close> are the clock
  readings of the two \<^verbatim>\<open>new Date()\<close>.
\<close>

definition handleSubmit ::
  "string \<Rightarrow> (request \<Rightarrow> fetch_outcome) \<Rightarrow> nat \<Rightarrow> nat \<Rightarrow> chatbot_state
     \<Rightarrow> effect list \<times> chatbot_state" where
  "handleSubmit API_BASE_URL fetch t1 t2 st =
     (let query = trim (inputValue st) in
      if query = [] \<or> isLoading st then ([PreventDefault], st)
      else
        let userMessage = \<lparr>mtype = User, content = Val (JStr query), timestamp = DateNow t1,
              sources = Undefined, confidence = Undefined, messageId = Undefined,
              feedback = Undefined\<rparr>;
            st1 = st\<lparr>messages := messages st @ [userMessage], inputValue := [],
                      error := None, isLoading := True\<rparr>;
            (fx, r) = queryChatbot API_BASE_URL fetch query Undefined Undefined;
            tried = (case r of Inl err \<Rightarrow> Inl err | Inr response \<Rightarrow> botMessage response)
        in case tried of
             Inr botMsg \<Rightarrow>
               (PreventDefault # fx,
                st1\<lparr>messages := messages st1 @ [botMsg], isLoading := False\<rparr>)
           | Inl err \<Rightarrow>
               let errorMessage = \<lparr>mtype = ErrorMsg,
                     content = Val (JStr ''Sorry, I encountered an error. Please make sure the backend server is running and try again.''),
                     timestamp = DateNow t2, sources = Undefined, confidence = Undefined,
                     messageId = Undefined, feedback = Undefined\<rparr>
               in (PreventDefault # fx,
                   st1\<lparr>error := Some (if message err \<noteq> [] then message err
                                        else ''Failed to get response. Please try again.''),
                       messages := messages st1 @ [errorMessage],
                       isLoading := False\<rparr>))"

text \<open>
  \<^verbatim>\<open>handleFeedback(messageId, feedbackType)\<close>, with string arguments: \<^verbatim>\<open>===\<close> against a
  string holds exactly for the same string.
\<close>

definition handleFeedback ::
  "string \<Rightarrow> (request \<Rightarrow> fetch_outcome) \<Rightarrow> string \<Rightarrow> string \<Rightarrow> chatbot_state
     \<Rightarrow> effect list \<times> chatbot_state" where
  "handleFeedback API_BASE_URL fetch mid feedbackType st =
     (case submitFeedback API_BASE_URL fetch mid feedbackType of
        (fx, Inr v) \<Rightarrow>
          (fx, st\<lparr>messages := map (\<lambda>msg. if messageId msg = Val (JStr mid)
                                          then msg\<lparr>feedback := Val (JStr feedbackType)\<rparr>
                                          else msg) (messages st)\<rparr>)
      | (fx, Inl err) \<Rightarrow> (fx @ [ConsoleError ''Failed to submit feedback:'' err], st))"

text \<open>The requests a list of effects sends, in order.\<close>

fun requests_sent :: "effect list \<Rightarrow> request list" where
  "requests_sent [] = []"
| "requests_sent (Fetch r # fx) = r # requests_sent fx"
| "requests_sent (x # fx) = requests_sent fx"

section \<open>The backend pipeline\<close>

text \<open>
  The Python backend (\<^verbatim>\<open>ingest_content.py\<close>, \<^verbatim>\<open>qdrant_client.py\<close>, \<^verbatim>\<open>openai_client.py\<close>,
  \<^verbatim>\<open>services/rag_service.py\<close>) is not among the sources; only its documentation is. Every
  definition of this section is modelled from the specification, sections 3, 4 and 7.
\<close>

text \<open>
  Modelled from the spec: the error taxonomy of section 7. \<^verbatim>\<open>NoRelevantContent\<close> is not an
  error there but a normal answer, so it is no constructor.
\<close>

datatype error =
    ConfigurationError
  | ProviderUnavailable
  | GenerationFailed
  | NotFound
  | ValidationError

subsection \<open>Content Chunker\<close>

text \<open>
  Modelled from the spec: a lesson document as the chunker and the Ingestion Job receive
  it, its originating document id and its text (sections 4.1 and 4.6).
\<close>

record document =
  doc_id :: string
  doc_text :: string

text \<open>
  Modelled from the spec: the Chunk entity of section 3 (source identifier, section
  label, raw text, sequence index within the source, overlap length with the neighbour).
\<close>

record chunk =
  source_id :: string
  section_label :: string
  raw_text :: string
  sequence :: nat
  overlap_len :: nat

text \<open>
  Modelled from the spec: the two parameters of the chunker (section 4.1), fixed at
  startup.
\<close>

record chunker_config =
  max_chunk_size :: nat
  overlap_size :: nat

text \<open>
  Modelled from the spec: the chunker's configuration check (section 4.1),
  \<^verbatim>\<open>overlap_size >= max_chunk_size\<close> is a configuration error reported at startup, not
  per call.
\<close>

definition make_chunker :: "nat \<Rightarrow> nat \<Rightarrow> error + chunker_config" where
  "make_chunker maxc ov =
     (if maxc \<le> ov then Inl ConfigurationError
      else Inr \<lparr>max_chunk_size = maxc, overlap_size = ov\<rparr>)"

text \<open>
  Modelled from the spec: the boundaries the chunker prefers (section 4.1, "splits on
  paragraph/sentence boundaries where possible"). Position \<open>p\<close> ends a paragraph when
  the two characters before it are line feeds, and ends a sentence when they are a
  full stop, exclamation or question mark followed by a space or line feed.
\<close>

definition is_paragraph_end :: "string \<Rightarrow> nat \<Rightarrow> bool" where
  "is_paragraph_end t p =
     (2 \<le> p \<and> p \<le> length t \<and> t ! (p - 2) = CHR 0x0A \<and> t ! (p - 1) = CHR 0x0A)"

definition is_sentence_end :: "string \<Rightarrow> nat \<Rightarrow> bool" where
  "is_sentence_end t p =
     (2 \<le> p \<and> p \<le> length t \<and> t ! (p - 2) \<in> set ''.!?''
      \<and> t ! (p - 1) \<in> set [CHR '' '', CHR 0x0A])"

text \<open>
  Modelled from the spec: where the chunk that starts at \<open>start\<close> ends when the rest of
  the text does not fit (section 4.1). The size budget is \<open>maxc\<close> characters; the chunk
  must be longer than the overlap, so that the next chunk starts further on. Within these
  bounds the last paragraph end is taken, else the last sentence end, else the hard split
  at the character count.
\<close>

definition cut_point :: "string \<Rightarrow> nat \<Rightarrow> nat \<Rightarrow> nat \<Rightarrow> nat" where
  "cut_point t maxc ov start =
     (let budget = rev [start + ov + 1 ..< start + maxc + 1] in
      case find (is_paragraph_end t) budget of
        Some p \<Rightarrow> p
      | None \<Rightarrow>
          (case find (is_sentence_end t) budget of
             Some p \<Rightarrow> p
           | None \<Rightarrow> start + maxc))"

lemma cut_point_bounds:
  assumes "ov < maxc"
  shows "start + ov < cut_point t maxc ov start \<and> cut_point t maxc ov start \<le> start + maxc"
proof -
  let ?budget = "rev [start + ov + 1 ..< start + maxc + 1]"
  have found: "find P xs = Some p \<Longrightarrow> p \<in> set xs" for P and xs :: "nat list" and p
    by (auto simp: find_Some_iff)
  have "cut_point t maxc ov start \<in> set ?budget \<or> cut_point t maxc ov start = start + maxc"
    unfolding cut_point_def Let_def
    by (cases "find (is_paragraph_end t) ?budget"; cases "find (is_sentence_end t) ?budget")
       (simp_all only: option.case found simp_thms)
  moreover have "p \<in> set ?budget \<Longrightarrow> start + ov < p \<and> p \<le> start + maxc" for p
    by (simp only: set_rev set_upt) auto
  ultimately show ?thesis using assms by auto
qed

text \<open>
  Modelled from the spec: the chunking loop (section 4.1), as the list of the chunks'
  (start, end) positions. An empty rest gives no chunk; a rest within the size budget is
  the last chunk; otherwise the chunk ends at the cut point and the next one starts
  \<open>ov\<close> characters before that end. The configuration error is reported at startup, so
  with \<open>maxc \<le> ov\<close> nothing is produced here.
\<close>

function spans :: "string \<Rightarrow> nat \<Rightarrow> nat \<Rightarrow> nat \<Rightarrow> (nat \<times> nat) list" where
  "spans t maxc ov start =
     (if length t \<le> start \<or> maxc \<le> ov then []
      else if length t \<le> start + maxc then [(start, length t)]
      else (start, cut_point t maxc ov start) # spans t maxc ov (cut_point t maxc ov start - ov))"
  by pat_completeness auto
termination
proof (relation "measure (\<lambda>(t, maxc, ov, start). length t - start)")
  show "wf (measure (\<lambda>(t, maxc, ov, start). length t - start))" by simp
next
  fix t :: string and maxc ov start :: nat
  assume "\<not> (length t \<le> start \<or> maxc \<le> ov)" "\<not> length t \<le> start + maxc"
  then show "((t, maxc, ov, cut_point t maxc ov start - ov), (t, maxc, ov, start))
      \<in> measure (\<lambda>(t, maxc, ov, start). length t - start)"
    using cut_point_bounds [of ov maxc start t] by (simp, arith)
qed

declare spans.simps [simp del]

text \<open>
  Modelled from the spec: the best-effort section label (section 4.1), the nearest
  heading before the chunk's start: the last line of the text before position \<open>pos\<close> that
  begins with \<^verbatim>\<open>#\<close>, without its leading \<^verbatim>\<open>#\<close> and spaces; empty when there is none.
\<close>

fun split_lines :: "string \<Rightarrow> string list" where
  "split_lines [] = [[]]"
| "split_lines (c # cs) =
     (if c = CHR 0x0A then [] # split_lines cs
      else (case split_lines cs of [] \<Rightarrow> [[c]] | l # ls \<Rightarrow> (c # l) # ls))"

definition section_of :: "string \<Rightarrow> nat \<Rightarrow> string" where
  "section_of t pos =
     (case rev (filter (\<lambda>l. l \<noteq> [] \<and> hd l = CHR ''#'') (split_lines (take pos t))) of
        [] \<Rightarrow> []
      | h # hs \<Rightarrow> dropWhile (\<lambda>c. c = CHR ''#'' \<or> c = CHR '' '') h)"

text \<open>
  Modelled from the spec: \<^verbatim>\<open>chunk(document_text, max_chunk_size, overlap_size)\<close> of
  section 4.1, with the document id that is attached to every chunk.
\<close>

definition chunk :: "chunker_config \<Rightarrow> document \<Rightarrow> chunk list" where
  "chunk cfg doc =
     map (\<lambda>(i, (s, e)).
            \<lparr>source_id = doc_id doc,
             section_label = section_of (doc_text doc) s,
             raw_text = take (e - s) (drop s (doc_text doc)),
             sequence = i,
             overlap_len = overlap_size cfg\<rparr>)
         (enumerate 0 (spans (doc_text doc) (max_chunk_size cfg) (overlap_size cfg) 0))"

subsection \<open>Embedding Client\<close>

text \<open>
  Modelled from the spec: an embedding (section 3), a numeric vector; its fixed
  dimensionality is not part of the type.
\<close>

type_synonym vector = "real list"

text \<open>
  Modelled from the spec: \<^verbatim>\<open>embed_batch\<close> of section 4.2, one vector per text in the
  order of the input. \<open>embed_one\<close> is the client's single-text call, after its retries: it
  returns the vector or the error it surfaces.
\<close>

fun embed_batch :: "(string \<Rightarrow> error + vector) \<Rightarrow> string list \<Rightarrow> error + vector list" where
  "embed_batch embed_one [] = Inr []"
| "embed_batch embed_one (t # ts) =
     (case embed_one t of
        Inl e \<Rightarrow> Inl e
      | Inr v \<Rightarrow>
          (case embed_batch embed_one ts of
             Inl e \<Rightarrow> Inl e
           | Inr vs \<Rightarrow> Inr (v # vs)))"

subsection \<open>Vector Index\<close>

text \<open>
  Modelled from the spec: the Embedding Record of section 3, a vector with the payload
  (source id, section, chunk text, chunk sequence), stored under a caller-supplied id.
\<close>

record payload =
  p_source :: string
  p_section :: string
  p_text :: string
  p_sequence :: nat

text \<open>
  Modelled from the spec: the caller-supplied id of a record (sections 4.3 and 4.6), made
  of source and sequence, and the collection as the list of the records under their ids.
\<close>

type_synonym record_id = "string \<times> nat"

type_synonym index = "(record_id \<times> vector \<times> payload) list"

text \<open>
  Modelled from the spec: \<^verbatim>\<open>upsert(records)\<close> of section 4.3, idempotent by the
  caller-supplied id: a record whose id is stored replaces the stored one, any other is
  added.
\<close>

fun upsert :: "(record_id \<times> vector \<times> payload) list \<Rightarrow> index \<Rightarrow> index" where
  "upsert [] idx = idx"
| "upsert ((k, r) # rs) idx = upsert rs (AList.update k r idx)"

text \<open>
  Modelled from the spec: \<^verbatim>\<open>search(query_vector, top_k, min_score)\<close> of section 4.3:
  the stored payloads with their similarity to the query vector, those below
  \<open>min_score\<close> dropped, ordered by descending score, cut to \<open>top_k\<close> entries. The
  similarity measure \<open>sim\<close> is the index's own.
\<close>

definition search ::
  "(vector \<Rightarrow> vector \<Rightarrow> real) \<Rightarrow> index \<Rightarrow> vector \<Rightarrow> nat \<Rightarrow> real \<Rightarrow> (payload \<times> real) list" where
  "search sim idx query_vector top_k min_score =
     take top_k
       (sort_key (\<lambda>(p, s). - s)
          (filter (\<lambda>(p, s). min_score \<le> s)
             (map (\<lambda>(k, v, p). (p, sim query_vector v)) idx)))"

subsection \<open>RAG Orchestrator\<close>

text \<open>
  Modelled from the spec: the parameters of retrieval and generation (sections 4.4 and
  4.5): the top-K cutoff (5 by default), the minimum score (0.7 by default), and the
  \<^verbatim>\<open>max_tokens\<close> and \<^verbatim>\<open>temperature\<close> passed to the Completion Client.
\<close>

record rag_config =
  top_k :: nat
  min_score :: real
  max_tokens :: nat
  temperature :: real

text \<open>
  Modelled from the spec: a source citation (section 3), chapter, section and quoted
  excerpt of a retrieved chunk.
\<close>

record citation =
  cite_chapter :: string
  cite_section :: string
  cite_quote :: string

text \<open>
  Modelled from the spec: the result of \<^verbatim>\<open>query\<close> (section 4.5),
  \<^verbatim>\<open>{answer, sources, confidence, latency}\<close>.
\<close>

record query_result =
  answer :: string
  result_sources :: "citation list"
  result_confidence :: real
  latency :: nat

text \<open>
  Modelled from the spec: the fixed set of feedback kinds (section 6), and the persisted
  Chat Message of section 3 with its nullable feedback field.
\<close>

datatype feedback_kind = Helpful | NotHelpful | Incorrect


record chat_message =
  msg_id :: string
  msg_query :: string
  msg_response :: string
  msg_sources :: "citation list"
  msg_confidence :: real
  msg_latency :: nat
  msg_created_at :: nat
  msg_feedback :: "feedback_kind option"

text \<open>
  Modelled from the spec: the calls the Orchestrator makes to its collaborators (section
  2, data flow): the Embedding Client, the Vector Index, the Completion Client and the
  Relational Store.
\<close>

datatype call =
    EmbeddingCall string
  | SearchCall vector nat real
  | CompletionCall string string nat real
  | PersistCall chat_message

text \<open>
  Modelled from the spec: what one request takes from its surroundings for the Chat
  Message (section 3): a fresh identifier, the creation time and the measured latency.
\<close>

record request_env =
  fresh_id :: string
  clock :: nat
  elapsed_ms :: nat

text \<open>
  Modelled from the spec: the fixed "no relevant content found" answer of step 4 and the
  system instruction of step 5 (section 4.5); the spec fixes their role, not their
  wording.
\<close>

definition no_relevant_content :: string where
  "no_relevant_content = ''No relevant content found.''"

definition system_prompt :: string where
  "system_prompt = ''Answer only from the supplied context.''"

text \<open>
  Modelled from the spec: the prompt of step 5 (section 4.5), the chunk texts, each
  tagged with its source and section, followed by the original question.
\<close>

definition user_prompt :: "(payload \<times> real) list \<Rightarrow> string \<Rightarrow> string" where
  "user_prompt ctx question =
     concat (map (\<lambda>(p, s). ''['' @ p_source p @ '' / '' @ p_section p @ ''] '' @ p_text p @ [CHR 0x0A]) ctx)
     @ question"

text \<open>
  Modelled from the spec: the citation of a retrieved chunk (step 8 of section 4.5).
\<close>

definition citation_of :: "payload \<Rightarrow> citation" where
  "citation_of p = \<lparr>cite_chapter = p_source p, cite_section = p_section p, cite_quote = p_text p\<rparr>"

text \<open>
  Modelled from the spec: the chapter filter of step 3 (section 4.5), restricting the
  search to the records of one source.
\<close>

definition scoped :: "string option \<Rightarrow> index \<Rightarrow> index" where
  "scoped chapter_filter idx =
     (case chapter_filter of
        None \<Rightarrow> idx
      | Some c \<Rightarrow> filter (\<lambda>(k, v, p). p_source p = c) idx)"

text \<open>
  Modelled from the spec: \<^verbatim>\<open>query(question, chapter_filter?, selected_text?)\<close>, steps 1 to
  9 of section 4.5 with its failure semantics. \<open>embed_one\<close> and \<open>generate\<close> are the
  Embedding and Completion Clients after their retries, \<open>sim\<close> and \<open>idx\<close> the Vector
  Index. The result is the list of calls made and the error or the answer.
\<close>

definition query ::
  "rag_config \<Rightarrow> (string \<Rightarrow> error + vector) \<Rightarrow> (vector \<Rightarrow> vector \<Rightarrow> real) \<Rightarrow> index
     \<Rightarrow> (string \<Rightarrow> string \<Rightarrow> nat \<Rightarrow> real \<Rightarrow> error + string) \<Rightarrow> request_env
     \<Rightarrow> string \<Rightarrow> string option \<Rightarrow> string option \<Rightarrow> call list \<times> (error + query_result)" where
  "query cfg embed_one sim idx generate env question chapter_filter selected_text =
     (let search_text = (case selected_text of Some sel \<Rightarrow> sel @ question | None \<Rightarrow> question) in
      case embed_one search_text of
        Inl e \<Rightarrow> ([EmbeddingCall search_text], Inl GenerationFailed)
      | Inr qv \<Rightarrow>
          let ctx = search sim (scoped chapter_filter idx) qv (top_k cfg) (min_score cfg);
              retrieval = [EmbeddingCall search_text, SearchCall qv (top_k cfg) (min_score cfg)]
          in (case ctx of
                [] \<Rightarrow>
                  (retrieval,
                   Inr \<lparr>answer = no_relevant_content, result_sources = [],
                        result_confidence = 0, latency = elapsed_ms env\<rparr>)
              | (top_payload, top_score) # rest \<Rightarrow>
                  let prompt = user_prompt ctx question;
                      completion = CompletionCall system_prompt prompt (max_tokens cfg) (temperature cfg)
                  in (case generate system_prompt prompt (max_tokens cfg) (temperature cfg) of
                        Inl e \<Rightarrow> (retrieval @ [completion], Inl GenerationFailed)
                      | Inr generated \<Rightarrow>
                          let cites = map (\<lambda>(p, s). citation_of p) ctx;
                              conf = min top_score 1
                          in (retrieval @ [completion,
                                PersistCall \<lparr>msg_id = fresh_id env, msg_query = question,
                                  msg_response = generated, msg_sources = cites,
                                  msg_confidence = conf, msg_latency = elapsed_ms env,
                                  msg_created_at = clock env, msg_feedback = None\<rparr>],
                              Inr \<lparr>answer = generated, result_sources = cites,
                                   result_confidence = conf, latency = elapsed_ms env\<rparr>))))"

text \<open>Modelled from the spec: whether a call is one to the Completion Client.\<close>

fun is_completion :: "call \<Rightarrow> bool" where
  "is_completion (CompletionCall sp up mt tp) = True"
| "is_completion c = False"

subsection \<open>Ingestion Job\<close>

text \<open>
  Modelled from the spec: the upsert key of section 4.6, a deterministic id derived from
  source and sequence.
\<close>

definition record_id_of :: "chunk \<Rightarrow> record_id" where
  "record_id_of c = (source_id c, sequence c)"

text \<open>
  Modelled from the spec: the Embedding Record of a chunk (section 3), one record per
  chunk, with the chunk's metadata as payload.
\<close>

definition to_record :: "chunk \<Rightarrow> vector \<Rightarrow> record_id \<times> vector \<times> payload" where
  "to_record c v =
     (record_id_of c, v,
      \<lparr>p_source = source_id c, p_section = section_label c, p_text = raw_text c,
       p_sequence = sequence c\<rparr>)"

text \<open>
  Modelled from the spec: the body of the Ingestion Job (section 4.6): each document is
  chunked, its chunk texts go through the Embedding Client as one batch, and the records
  are upserted. The number counts the chunks ingested.
\<close>

fun ingest_docs ::
  "chunker_config \<Rightarrow> (string \<Rightarrow> error + vector) \<Rightarrow> document list \<Rightarrow> index
     \<Rightarrow> error + nat \<times> index" where
  "ingest_docs cfg embed_one [] idx = Inr (0, idx)"
| "ingest_docs cfg embed_one (d # ds) idx =
     (case embed_batch embed_one (map raw_text (chunk cfg d)) of
        Inl e \<Rightarrow> Inl e
      | Inr vs \<Rightarrow>
          (case ingest_docs cfg embed_one ds (upsert (map2 to_record (chunk cfg d) vs) idx) of
             Inl e \<Rightarrow> Inl e
           | Inr (n, idx') \<Rightarrow> Inr (length (chunk cfg d) + n, idx')))"

text \<open>
  Modelled from the spec: the result of the Ingestion Job (section 4.6),
  \<^verbatim>\<open>{documents_processed, chunks_ingested}\<close>.
\<close>

record ingest_report =
  documents_processed :: nat
  chunks_ingested :: nat

text \<open>
  Modelled from the spec: \<^verbatim>\<open>run(document_source)\<close> of section 4.6, on the index it finds,
  returning the report and the index it leaves.
\<close>

definition run ::
  "chunker_config \<Rightarrow> (string \<Rightarrow> error + vector) \<Rightarrow> document list \<Rightarrow> index
     \<Rightarrow> error + ingest_report \<times> index" where
  "run cfg embed_one docs idx =
     (case ingest_docs cfg embed_one docs idx of
        Inl e \<Rightarrow> Inl e
      | Inr (n, idx') \<Rightarrow> Inr (\<lparr>documents_processed = length docs, chunks_ingested = n\<rparr>, idx'))"

section \<open>Properties of the API client\<close>

text \<open>
  Each client function sends one request, first, and logs once when it throws. The
  helper lemmas give the effects and the outcome of a call in closed form.
\<close>

lemma queryChatbot_effects:
  "fst (queryChatbot b f q ch sel) =
     Fetch \<lparr>url = b @ ''/chat'', req_method = POST,
        headers = [(''Content-Type'', ''application/json'')],
        body = Some (JObj [(''query'', JStr q),
                           (''chapter'', case ch of Undefined \<Rightarrow> JNull | Val j \<Rightarrow> j),
                           (''selected_text'', case sel of Undefined \<Rightarrow> JNull | Val j \<Rightarrow> j),
                           (''stream'', JBool False)])\<rparr>
     # (case snd (queryChatbot b f q ch sel) of
          Inl e \<Rightarrow> [ConsoleError ''Chatbot query error:'' e] | Inr v \<Rightarrow> [])"
  by (simp add: queryChatbot_def Let_def JSON_stringify_def default_param_def
           split: sum.splits jsval.splits)

lemma submitFeedback_effects:
  "fst (submitFeedback b f mid fb) =
     Fetch \<lparr>url = b @ ''/chat/'' @ mid @ ''/feedback'', req_method = PUT,
        headers = [(''Content-Type'', ''application/json'')],
        body = Some (JObj [(''feedback'', JStr fb)])\<rparr>
     # (case snd (submitFeedback b f mid fb) of
          Inl e \<Rightarrow> [ConsoleError ''Feedback submission error:'' e] | Inr v \<Rightarrow> [])"
  by (simp add: submitFeedback_def Let_def JSON_stringify_def split: sum.splits)


lemma queryChatbot_fetched:
  assumes "Fetch r \<in> set (fst (queryChatbot b f q ch sel))"
  shows "snd (queryChatbot b f q ch sel) =
     (case f r of
        Rejected e \<Rightarrow> Inl e
      | Resolved resp \<Rightarrow>
          if ok resp then json_result resp
          else (case json_result resp of
                  Inl e \<Rightarrow> Inl e
                | Inr errorData \<Rightarrow>
                    (case get_prop errorData ''message'' of
                       Inl e \<Rightarrow> Inl e
                     | Inr m \<Rightarrow> Inl (new_Error
                         (or_default m (JStr ''Failed to get response from chatbot''))))))"
proof -
  from assms have "r = \<lparr>url = b @ ''/chat'', req_method = POST,
        headers = [(''Content-Type'', ''application/json'')],
        body = Some (JObj [(''query'', JStr q),
                           (''chapter'', case ch of Undefined \<Rightarrow> JNull | Val j \<Rightarrow> j),
                           (''selected_text'', case sel of Undefined \<Rightarrow> JNull | Val j \<Rightarrow> j),
                           (''stream'', JBool False)])\<rparr>"
    by (auto simp: queryChatbot_effects split: sum.splits)
  then show ?thesis
    by (cases ch; cases sel)
       (simp_all add: queryChatbot_def Let_def JSON_stringify_def default_param_def
          split: sum.splits fetch_outcome.splits)
qed

lemma submitFeedback_fetched:
  assumes "Fetch r \<in> set (fst (submitFeedback b f mid fb))"
  shows "snd (submitFeedback b f mid fb) =
     (case f r of
        Rejected e \<Rightarrow> Inl e
      | Resolved resp \<Rightarrow>
          if ok resp then json_result resp
          else (case json_result resp of
                  Inl e \<Rightarrow> Inl e
                | Inr errorData \<Rightarrow>
                    (case get_prop errorData ''message'' of
                       Inl e \<Rightarrow> Inl e
                     | Inr m \<Rightarrow> Inl (new_Error
                         (or_default m (JStr ''Failed to submit feedback''))))))"
proof -
  from assms have "r = \<lparr>url = b @ ''/chat/'' @ mid @ ''/feedback'', req_method = PUT,
        headers = [(''Content-Type'', ''application/json'')],
        body = Some (JObj [(''feedback'', JStr fb)])\<rparr>"
    by (auto simp: submitFeedback_effects split: sum.splits)
  then show ?thesis
    by (simp add: submitFeedback_def Let_def JSON_stringify_def
          split: sum.splits fetch_outcome.splits)
qed

lemma non_ok_body_throws:
  "\<exists>e. (case json_result resp of
          Inl e \<Rightarrow> Inl e
        | Inr errorData \<Rightarrow>
            (case get_prop errorData ''message'' of
               Inl e \<Rightarrow> Inl e
             | Inr m \<Rightarrow> Inl (new_Error (or_default m d)))) = (Inl e :: js_error + json)"
  by (simp split: sum.splits)

lemma queryChatbot_sends: "\<exists>r. Fetch r \<in> set (fst (queryChatbot b f q ch sel))"
  by (subst queryChatbot_effects) auto

lemma submitFeedback_sends: "\<exists>r. Fetch r \<in> set (fst (submitFeedback b f mid fb))"
  by (subst submitFeedback_effects) auto

text \<open>
  Claim C3. Every call \<^verbatim>\<open>queryChatbot(query, chapter, selectedText)\<close> sends exactly one
  request: a POST to the \<^verbatim>\<open>/chat\<close> path under the base URL, whose JSON body has the four
  fields \<^verbatim>\<open>query\<close>, \<^verbatim>\<open>chapter\<close>, \<^verbatim>\<open>selected_text\<close> and \<^verbatim>\<open>stream\<close>, in this order and no
  other, with \<^verbatim>\<open>stream\<close> false. A missing \<^verbatim>\<open>chapter\<close> or \<^verbatim>\<open>selectedText\<close> is sent as
  \<^verbatim>\<open>null\<close>, so neither field is ever dropped from the body. This holds whatever the
  outcome of the request is.
\<close>

theorem queryChatbot_posts_four_fields:
  "requests_sent (fst (queryChatbot b f q ch sel)) =
     [\<lparr>url = b @ ''/chat'', req_method = POST,
        headers = [(''Content-Type'', ''application/json'')],
        body = Some (JObj [(''query'', JStr q),
                           (''chapter'', case ch of Undefined \<Rightarrow> JNull | Val j \<Rightarrow> j),
                           (''selected_text'', case sel of Undefined \<Rightarrow> JNull | Val j \<Rightarrow> j),
                           (''stream'', JBool False)])\<rparr>]"
  by (simp add: queryChatbot_effects split: sum.splits)

theorem queryChatbot_posts_four_fields_witness:
  "requests_sent (fst (queryChatbot ''https://api''
       (\<lambda>r. Resolved \<lparr>status = 429, json_result = Inl (Thrown SyntaxError ''Unexpected token'')\<rparr>)
       ''What is SLAM?'' (Val (JStr ''week-6-slam'')) Undefined)) =
     [\<lparr>url = ''https://api/chat'', req_method = POST,
        headers = [(''Content-Type'', ''application/json'')],
        body = Some (JObj [(''query'', JStr ''What is SLAM?''),
                           (''chapter'', JStr ''week-6-slam''),
                           (''selected_text'', JNull),
                           (''stream'', JBool False)])\<rparr>]"
  using queryChatbot_posts_four_fields [of "''https://api''"
      "\<lambda>r. Resolved \<lparr>status = 429, json_result = Inl (Thrown SyntaxError ''Unexpected token'')\<rparr>"
      "''What is SLAM?''" "Val (JStr ''week-6-slam'')" Undefined]
  by simp

text \<open>
  Claim C8, as amended. When the fetch of \<^verbatim>\<open>queryChatbot\<close> or \<^verbatim>\<open>submitFeedback\<close>
  resolves with a status outside 200-299, the function throws: it never returns the error
  payload. When the body is an object whose \<^verbatim>\<open>message\<close> is truthy, the thrown Error carries
  the string form of that \<^verbatim>\<open>message\<close> (and the TypeError of the conversion is thrown when
  it has none). When the object has no \<^verbatim>\<open>message\<close>, or a falsy one (the empty string,
  \<^verbatim>\<open>0\<close>, \<^verbatim>\<open>false\<close>, \<^verbatim>\<open>null\<close>), the thrown Error carries the function's fixed text.
  Conversely, a normal return of \<open>v\<close> happens only when the request resolved with an ok
  response whose body parsed to \<open>v\<close>.
\<close>

theorem client_throws_on_non_ok:
  "(Fetch r \<in> set (fst (queryChatbot b f q ch sel)) \<and> f r = Resolved resp \<and> \<not> ok resp \<longrightarrow>
      (\<exists>e. snd (queryChatbot b f q ch sel) = Inl e) \<and>
      (\<forall>ps m s. json_result resp = Inr (JObj ps) \<and> map_of ps ''message'' = Some m \<and> truthy m
           \<and> ToString m = Inr s \<longrightarrow>
         snd (queryChatbot b f q ch sel) = Inl (Thrown Error s)) \<and>
      (\<forall>ps m e. json_result resp = Inr (JObj ps) \<and> map_of ps ''message'' = Some m \<and> truthy m
           \<and> ToString m = Inl e \<longrightarrow>
         snd (queryChatbot b f q ch sel) = Inl e) \<and>
      (\<forall>ps. json_result resp = Inr (JObj ps) \<and> map_of ps ''message'' = None \<longrightarrow>
         snd (queryChatbot b f q ch sel) = Inl (Thrown Error ''Failed to get response from chatbot'')) \<and>
      (\<forall>ps m. json_result resp = Inr (JObj ps) \<and> map_of ps ''message'' = Some m \<and> \<not> truthy m \<longrightarrow>
         snd (queryChatbot b f q ch sel) = Inl (Thrown Error ''Failed to get response from chatbot'')))
   \<and> (snd (queryChatbot b f q ch sel) = Inr v \<longrightarrow>
      (\<exists>r' resp'. Fetch r' \<in> set (fst (queryChatbot b f q ch sel)) \<and> f r' = Resolved resp' \<and>
          ok resp' \<and> json_result resp' = Inr v))
   \<and> (Fetch r \<in> set (fst (submitFeedback b f mid fb)) \<and> f r = Resolved resp \<and> \<not> ok resp \<longrightarrow>
      (\<exists>e. snd (submitFeedback b f mid fb) = Inl e) \<and>
      (\<forall>ps m s. json_result resp = Inr (JObj ps) \<and> map_of ps ''message'' = Some m \<and> truthy m
           \<and> ToString m = Inr s \<longrightarrow>
         snd (submitFeedback b f mid fb) = Inl (Thrown Error s)) \<and>
      (\<forall>ps m e. json_result resp = Inr (JObj ps) \<and> map_of ps ''message'' = Some m \<and> truthy m
           \<and> ToString m = Inl e \<longrightarrow>
         snd (submitFeedback b f mid fb) = Inl e) \<and>
      (\<forall>ps. json_result resp = Inr (JObj ps) \<and> map_of ps ''message'' = None \<longrightarrow>
         snd (submitFeedback b f mid fb) = Inl (Thrown Error ''Failed to submit feedback'')) \<and>
      (\<forall>ps m. json_result resp = Inr (JObj ps) \<and> map_of ps ''message'' = Some m \<and> \<not> truthy m \<longrightarrow>
         snd (submitFeedback b f mid fb) = Inl (Thrown Error ''Failed to submit feedback'')))
   \<and> (snd (submitFeedback b f mid fb) = Inr v \<longrightarrow>
      (\<exists>r' resp'. Fetch r' \<in> set (fst (submitFeedback b f mid fb)) \<and> f r' = Resolved resp' \<and>
          ok resp' \<and> json_result resp' = Inr v))"
proof (intro conjI impI)
  assume a: "Fetch r \<in> set (fst (queryChatbot b f q ch sel)) \<and> f r = Resolved resp \<and> \<not> ok resp"
  then have eq: "snd (queryChatbot b f q ch sel) =
      (case json_result resp of
          Inl e \<Rightarrow> Inl e
        | Inr errorData \<Rightarrow>
            (case get_prop errorData ''message'' of
               Inl e \<Rightarrow> Inl e
             | Inr m \<Rightarrow> Inl (new_Error (or_default m (JStr ''Failed to get response from chatbot'')))))"
    using queryChatbot_fetched [of r b f q ch sel] by simp
  show "\<exists>e. snd (queryChatbot b f q ch sel) = Inl e"
    unfolding eq by (rule non_ok_body_throws)
  show "\<forall>ps m s. json_result resp = Inr (JObj ps) \<and> map_of ps ''message'' = Some m \<and> truthy m
           \<and> ToString m = Inr s \<longrightarrow>
         snd (queryChatbot b f q ch sel) = Inl (Thrown Error s)"
    unfolding eq by (auto simp: or_default_def new_Error_def)
  show "\<forall>ps m e. json_result resp = Inr (JObj ps) \<and> map_of ps ''message'' = Some m \<and> truthy m
           \<and> ToString m = Inl e \<longrightarrow>
         snd (queryChatbot b f q ch sel) = Inl e"
    unfolding eq by (auto simp: or_default_def new_Error_def)
  show "\<forall>ps. json_result resp = Inr (JObj ps) \<and> map_of ps ''message'' = None \<longrightarrow>
         snd (queryChatbot b f q ch sel) = Inl (Thrown Error ''Failed to get response from chatbot'')"
    unfolding eq by (auto simp: or_default_def new_Error_def)
  show "\<forall>ps m. json_result resp = Inr (JObj ps) \<and> map_of ps ''message'' = Some m \<and> \<not> truthy m \<longrightarrow>
         snd (queryChatbot b f q ch sel) = Inl (Thrown Error ''Failed to get response from chatbot'')"
    unfolding eq by (auto simp: or_default_def new_Error_def)
next
  assume a: "Fetch r \<in> set (fst (submitFeedback b f mid fb)) \<and> f r = Resolved resp \<and> \<not> ok resp"
  then have eq: "snd (submitFeedback b f mid fb) =
      (case json_result resp of
          Inl e \<Rightarrow> Inl e
        | Inr errorData \<Rightarrow>
            (case get_prop errorData ''message'' of
               Inl e \<Rightarrow> Inl e
             | Inr m \<Rightarrow> Inl (new_Error (or_default m (JStr ''Failed to submit feedback'')))))"
    using submitFeedback_fetched [of r b f mid fb] by simp
  show "\<exists>e. snd (submitFeedback b f mid fb) = Inl e"
    unfolding eq by (rule non_ok_body_throws)
  show "\<forall>ps m s. json_result resp = Inr (JObj ps) \<and> map_of ps ''message'' = Some m \<and> truthy m
           \<and> ToString m = Inr s \<longrightarrow>
         snd (submitFeedback b f mid fb) = Inl (Thrown Error s)"
    unfolding eq by (auto simp: or_default_def new_Error_def)
  show "\<forall>ps m e. json_result resp = Inr (JObj ps) \<and> map_of ps ''message'' = Some m \<and> truthy m
           \<and> ToString m = Inl e \<longrightarrow>
         snd (submitFeedback b f mid fb) = Inl e"
    unfolding eq by (auto simp: or_default_def new_Error_def)
  show "\<forall>ps. json_result resp = Inr (JObj ps) \<and> map_of ps ''message'' = None \<longrightarrow>
         snd (submitFeedback b f mid fb) = Inl (Thrown Error ''Failed to submit feedback'')"
    unfolding eq by (auto simp: or_default_def new_Error_def)
  show "\<forall>ps m. json_result resp = Inr (JObj ps) \<and> map_of ps ''message'' = Some m \<and> \<not> truthy m \<longrightarrow>
         snd (submitFeedback b f mid fb) = Inl (Thrown Error ''Failed to submit feedback'')"
    unfolding eq by (auto simp: or_default_def new_Error_def)
next
  assume r: "snd (queryChatbot b f q ch sel) = Inr v"
  obtain r' where s: "Fetch r' \<in> set (fst (queryChatbot b f q ch sel))"
    using queryChatbot_sends by blast
  from r queryChatbot_fetched [OF s]
  have "\<exists>resp'. f r' = Resolved resp' \<and> ok resp' \<and> json_result resp' = Inr v"
    by (auto split: fetch_outcome.splits if_splits sum.splits)
  with s show "\<exists>r' resp'. Fetch r' \<in> set (fst (queryChatbot b f q ch sel)) \<and> f r' = Resolved resp' \<and>
          ok resp' \<and> json_result resp' = Inr v"
    by blast
next
  assume r: "snd (submitFeedback b f mid fb) = Inr v"
  obtain r' where s: "Fetch r' \<in> set (fst (submitFeedback b f mid fb))"
    using submitFeedback_sends by blast
  from r submitFeedback_fetched [OF s]
  have "\<exists>resp'. f r' = Resolved resp' \<and> ok resp' \<and> json_result resp' = Inr v"
    by (auto split: fetch_outcome.splits if_splits sum.splits)
  with s show "\<exists>r' resp'. Fetch r' \<in> set (fst (submitFeedback b f mid fb)) \<and> f r' = Resolved resp' \<and>
          ok resp' \<and> json_result resp' = Inr v"
    by blast
qed

theorem client_throws_on_non_ok_witness:
  "snd (queryChatbot ''https://api''
          (fetch_always (Resolved \<lparr>status = 500, json_result = Inr (JObj [(''message'', JStr ''Upstream down'')])\<rparr>))
          ''What is SLAM?'' Undefined Undefined) = Inl (Thrown Error ''Upstream down'')
   \<and> snd (queryChatbot ''https://api''
          (fetch_always (Resolved \<lparr>status = 400,
             json_result = Inr (JObj [(''message'', JObj [(''toString'', JStr ''x'')])])\<rparr>))
          ''What is SLAM?'' Undefined Undefined)
       = Inl (Thrown TypeError ''Cannot convert object to primitive value'')
   \<and> snd (submitFeedback ''https://api''
          (fetch_always (Resolved \<lparr>status = 404, json_result = Inr (JObj [(''detail'', JStr ''Not found'')])\<rparr>))
          ''m1'' ''helpful'') = Inl (Thrown Error ''Failed to submit feedback'')
   \<and> snd (submitFeedback ''https://api''
          (fetch_always (Resolved \<lparr>status = 422, json_result = Inr (JObj [(''message'', JStr [])])\<rparr>))
          ''m1'' ''helpful'') = Inl (Thrown Error ''Failed to submit feedback'')
   \<and> snd (queryChatbot ''https://api''
          (fetch_always (Resolved \<lparr>status = 200, json_result = Inr (JObj [(''id'', JStr ''m1'')])\<rparr>))
          ''What is SLAM?'' Undefined Undefined) = Inr (JObj [(''id'', JStr ''m1'')])
   \<and> (\<exists>r' resp'. fetch_always (Resolved \<lparr>status = 200, json_result = Inr (JObj [(''id'', JStr ''m1'')])\<rparr>) r'
          = Resolved resp' \<and> ok resp' \<and> json_result resp' = Inr (JObj [(''id'', JStr ''m1'')]))"
proof -
  let ?r500 = "\<lparr>status = 500, json_result = Inr (JObj [(''message'', JStr ''Upstream down'')])\<rparr>"
  let ?r400 = "\<lparr>status = 400, json_result = Inr (JObj [(''message'', JObj [(''toString'', JStr ''x'')])])\<rparr>"
  let ?r404 = "\<lparr>status = 404, json_result = Inr (JObj [(''detail'', JStr ''Not found'')])\<rparr>"
  let ?r422 = "\<lparr>status = 422, json_result = Inr (JObj [(''message'', JStr [])])\<rparr>"
  let ?r200 = "\<lparr>status = 200, json_result = Inr (JObj [(''id'', JStr ''m1'')])\<rparr>"
  let ?rq = "\<lparr>url = ''https://api/chat'', req_method = POST,
        headers = [(''Content-Type'', ''application/json'')],
        body = Some (JObj [(''query'', JStr ''What is SLAM?''), (''chapter'', JNull),
                           (''selected_text'', JNull), (''stream'', JBool False)])\<rparr>"
  let ?rf = "\<lparr>url = ''https://api/chat/m1/feedback'', req_method = PUT,
        headers = [(''Content-Type'', ''application/json'')],
        body = Some (JObj [(''feedback'', JStr ''helpful'')])\<rparr>"
  have h1: "Fetch ?rq \<in> set (fst (queryChatbot ''https://api'' (fetch_always (Resolved ?r500)) ''What is SLAM?'' Undefined Undefined))
      \<and> fetch_always (Resolved ?r500) ?rq = Resolved ?r500 \<and> \<not> ok ?r500"
    by (simp add: queryChatbot_effects ok_def fetch_always_def)
  have h2: "Fetch ?rq \<in> set (fst (queryChatbot ''https://api'' (fetch_always (Resolved ?r400)) ''What is SLAM?'' Undefined Undefined))
      \<and> fetch_always (Resolved ?r400) ?rq = Resolved ?r400 \<and> \<not> ok ?r400"
    by (simp add: queryChatbot_effects ok_def fetch_always_def)
  have h3: "Fetch ?rf \<in> set (fst (submitFeedback ''https://api'' (fetch_always (Resolved ?r404)) ''m1'' ''helpful''))
      \<and> fetch_always (Resolved ?r404) ?rf = Resolved ?r404 \<and> \<not> ok ?r404"
    by (simp add: submitFeedback_effects ok_def fetch_always_def)
  have h4: "Fetch ?rf \<in> set (fst (submitFeedback ''https://api'' (fetch_always (Resolved ?r422)) ''m1'' ''helpful''))
      \<and> fetch_always (Resolved ?r422) ?rf = Resolved ?r422 \<and> \<not> ok ?r422"
    by (simp add: submitFeedback_effects ok_def fetch_always_def)
  have h5: "snd (queryChatbot ''https://api'' (fetch_always (Resolved ?r200)) ''What is SLAM?'' Undefined Undefined)
      = Inr (JObj [(''id'', JStr ''m1'')])"
    by (simp add: queryChatbot_def Let_def ok_def fetch_always_def)
  have c1: "snd (queryChatbot ''https://api'' (fetch_always (Resolved ?r500)) ''What is SLAM?'' Undefined Undefined)
      = Inl (Thrown Error ''Upstream down'')"
    using client_throws_on_non_ok [where r = ?rq and b = "''https://api''"
        and f = "fetch_always (Resolved ?r500)"
        and q = "''What is SLAM?''" and ch = Undefined and sel = Undefined and resp = ?r500] h1
    by simp
  have c2: "snd (queryChatbot ''https://api'' (fetch_always (Resolved ?r400)) ''What is SLAM?'' Undefined Undefined)
      = Inl (Thrown TypeError ''Cannot convert object to primitive value'')"
    using client_throws_on_non_ok [where r = ?rq and b = "''https://api''"
        and f = "fetch_always (Resolved ?r400)"
        and q = "''What is SLAM?''" and ch = Undefined and sel = Undefined and resp = ?r400] h2
    by simp
  have c3: "snd (submitFeedback ''https://api'' (fetch_always (Resolved ?r404)) ''m1'' ''helpful'')
      = Inl (Thrown Error ''Failed to submit feedback'')"
    using client_throws_on_non_ok [where r = ?rf and b = "''https://api''"
        and f = "fetch_always (Resolved ?r404)"
        and mid = "''m1''" and fb = "''helpful''" and resp = ?r404] h3
    by simp
  have c4: "snd (submitFeedback ''https://api'' (fetch_always (Resolved ?r422)) ''m1'' ''helpful'')
      = Inl (Thrown Error ''Failed to submit feedback'')"
    using client_throws_on_non_ok [where r = ?rf and b = "''https://api''"
        and f = "fetch_always (Resolved ?r422)"
        and mid = "''m1''" and fb = "''helpful''" and resp = ?r422] h4
    by simp
  have c5: "\<exists>r' resp'. fetch_always (Resolved ?r200) r' = Resolved resp' \<and> ok resp'
      \<and> json_result resp' = Inr (JObj [(''id'', JStr ''m1'')])"
    using client_throws_on_non_ok [where b = "''https://api''" and f = "fetch_always (Resolved ?r200)"
        and q = "''What is SLAM?''" and ch = Undefined and sel = Undefined
        and v = "JObj [(''id'', JStr ''m1'')]" and r = ?rq and resp = ?r200
        and mid = "''m1''" and fb = "''helpful''", THEN conjunct2, THEN conjunct1, THEN mp, OF h5]
    by blast
  from c1 c2 c3 c4 h5 c5 show ?thesis by blast
qed

text \<open>
  The claim as first stated has the thrown error use the body's \<^verbatim>\<open>message\<close> field whenever
  the field is present. It fails for a non-ok response whose body is
  \<^verbatim>\<open>{"message": ""}\<close>: the field is present, and the thrown Error carries the fixed text,
  not the field.
\<close>

theorem message_field_present_counterexample:
  "\<not> ok \<lparr>status = 422, json_result = Inr (JObj [(''message'', JStr [])])\<rparr>
   \<and> get_prop (JObj [(''message'', JStr [])]) ''message'' = Inr (Val (JStr []))
   \<and> snd (queryChatbot ''https://api''
          (fetch_always (Resolved \<lparr>status = 422, json_result = Inr (JObj [(''message'', JStr [])])\<rparr>))
          ''What is SLAM?'' Undefined Undefined)
       = Inl (Thrown Error ''Failed to get response from chatbot'')
   \<and> snd (queryChatbot ''https://api''
          (fetch_always (Resolved \<lparr>status = 422, json_result = Inr (JObj [(''message'', JStr [])])\<rparr>))
          ''What is SLAM?'' Undefined Undefined)
       \<noteq> Inl (Thrown Error [])"
  by (simp add: queryChatbot_def Let_def ok_def fetch_always_def or_default_def new_Error_def
        JSON_stringify_def default_param_def)

text \<open>
  Claim C9. \<^verbatim>\<open>checkHealth\<close> never looks at the HTTP status. Whenever the request resolves
  and the body parses as JSON, whatever the status (4xx and 5xx included), it returns the
  parsed body and logs nothing; it throws only the error the request was rejected with or
  the error the JSON parsing failed with; and two responses that differ in status alone
  give the same effects and result.
\<close>

theorem checkHealth_ignores_status:
  "(f \<lparr>url = b @ ''/health'', req_method = GET, headers = [], body = None\<rparr> = Resolved resp
      \<and> json_result resp = Inr v \<longrightarrow> checkHealth b f = ([Fetch \<lparr>url = b @ ''/health'', req_method = GET, headers = [], body = None\<rparr>], Inr v))
   \<and> (snd (checkHealth b f) = Inl e \<longrightarrow>
        f \<lparr>url = b @ ''/health'', req_method = GET, headers = [], body = None\<rparr> = Rejected e
        \<or> (\<exists>resp'. f \<lparr>url = b @ ''/health'', req_method = GET, headers = [], body = None\<rparr> = Resolved resp'
              \<and> json_result resp' = Inl e))
   \<and> checkHealth b (\<lambda>r. Resolved \<lparr>status = s, json_result = j\<rparr>)
       = checkHealth b (\<lambda>r. Resolved \<lparr>status = s', json_result = j\<rparr>)"
  by (auto simp: checkHealth_def Let_def split: fetch_outcome.splits sum.splits)

theorem checkHealth_ignores_status_witness:
  "checkHealth ''https://api''
      (\<lambda>r. Resolved \<lparr>status = 503, json_result = Inr (JObj [(''status'', JStr ''unhealthy'')])\<rparr>)
    = ([Fetch \<lparr>url = ''https://api/health'', req_method = GET, headers = [], body = None\<rparr>],
       Inr (JObj [(''status'', JStr ''unhealthy'')]))
   \<and> \<not> ok \<lparr>status = 503, json_result = Inr (JObj [(''status'', JStr ''unhealthy'')])\<rparr>
   \<and> (\<exists>e. snd (queryChatbot ''https://api''
      (\<lambda>r. Resolved \<lparr>status = 503, json_result = Inr (JObj [(''status'', JStr ''unhealthy'')])\<rparr>)
      ''q'' Undefined Undefined) = Inl e)"
proof -
  let ?resp = "\<lparr>status = 503, json_result = Inr (JObj [(''status'', JStr ''unhealthy'')])\<rparr>"
  have h: "(\<lambda>r::request. Resolved ?resp) \<lparr>url = ''https://api'' @ ''/health'', req_method = GET, headers = [], body = None\<rparr>
       = Resolved ?resp \<and> json_result ?resp = Inr (JObj [(''status'', JStr ''unhealthy'')])"
    by simp
  have "checkHealth ''https://api'' (\<lambda>r. Resolved ?resp)
    = ([Fetch \<lparr>url = ''https://api'' @ ''/health'', req_method = GET, headers = [], body = None\<rparr>],
       Inr (JObj [(''status'', JStr ''unhealthy'')]))"
    using checkHealth_ignores_status [where f = "\<lambda>r. Resolved ?resp" and b = "''https://api''"
        and resp = ?resp and v = "JObj [(''status'', JStr ''unhealthy'')]"] h
    by blast
  moreover have "\<not> ok ?resp" by (simp add: ok_def)
  moreover have "\<exists>e. snd (queryChatbot ''https://api'' (\<lambda>r. Resolved ?resp) ''q'' Undefined Undefined) = Inl e"
    by (simp add: queryChatbot_def Let_def ok_def or_default_def)
  ultimately show ?thesis by simp
qed

section \<open>Properties of the chat widget\<close>

lemma handleSubmit_effects:
  "fst (handleSubmit b f t1 t2 st) =
     (if trim (inputValue st) = [] \<or> isLoading st then [PreventDefault]
      else PreventDefault # fst (queryChatbot b f (trim (inputValue st)) Undefined Undefined))"
  by (simp add: handleSubmit_def Let_def split: prod.splits sum.splits)

text \<open>
  Claim C10. \<^verbatim>\<open>handleSubmit\<close> calls \<^verbatim>\<open>queryChatbot\<close> with the query alone. So the
  requests it sends are: none when the trimmed input is empty (white space only, the
  no-break space included) or a request is loading, and otherwise the single POST
  \<^verbatim>\<open>/chat\<close> whose body has the trimmed input as \<^verbatim>\<open>query\<close> and \<^verbatim>\<open>chapter\<close> and
  \<^verbatim>\<open>selected_text\<close> both \<^verbatim>\<open>null\<close>. The widget has no other caller of \<^verbatim>\<open>queryChatbot\<close>.
\<close>

theorem handleSubmit_sends_null_filters:
  "requests_sent (fst (handleSubmit b f t1 t2 st)) =
     (if trim (inputValue st) = [] \<or> isLoading st then []
      else [\<lparr>url = b @ ''/chat'', req_method = POST,
              headers = [(''Content-Type'', ''application/json'')],
              body = Some (JObj [(''query'', JStr (trim (inputValue st))),
                                 (''chapter'', JNull),
                                 (''selected_text'', JNull),
                                 (''stream'', JBool False)])\<rparr>])"
  by (simp add: handleSubmit_effects queryChatbot_effects split: sum.splits)

theorem handleSubmit_sends_null_filters_witness:
  "requests_sent (fst (handleSubmit ''https://api'' (fetch_always (Rejected (Thrown TypeError ''Failed to fetch''))) 1 2
       ((initial_state 0)\<lparr>inputValue := CHR 0xA0 # '' What is SLAM? '' @ [CHR 0xA0, CHR 0x0A]\<rparr>))) =
     [\<lparr>url = ''https://api/chat'', req_method = POST,
        headers = [(''Content-Type'', ''application/json'')],
        body = Some (JObj [(''query'', JStr ''What is SLAM?''),
                           (''chapter'', JNull),
                           (''selected_text'', JNull),
                           (''stream'', JBool False)])\<rparr>]
   \<and> requests_sent (fst (handleSubmit ''https://api'' (fetch_always (Rejected (Thrown TypeError ''Failed to fetch''))) 1 2
       ((initial_state 0)\<lparr>inputValue := [CHR 0xA0, CHR '' '', CHR 0xA0]\<rparr>))) = []"
proof -
  let ?f = "fetch_always (Rejected (Thrown TypeError ''Failed to fetch''))"
  let ?padded = "CHR 0xA0 # '' What is SLAM? '' @ [CHR 0xA0, CHR 0x0A]"
  let ?blank = "[CHR 0xA0, CHR '' '', CHR 0xA0]"
  have t: "trim ?padded = ''What is SLAM?''" "trim ?blank = []"
    by (simp_all add: trim_def is_js_space_def)
  have s: "inputValue ((initial_state 0)\<lparr>inputValue := ?padded\<rparr>) = ?padded"
       "\<not> isLoading ((initial_state 0)\<lparr>inputValue := ?padded\<rparr>)"
       "inputValue ((initial_state 0)\<lparr>inputValue := ?blank\<rparr>) = ?blank"
    by (simp_all add: initial_state_def)
  have c1: "requests_sent (fst (handleSubmit ''https://api'' ?f 1 2 ((initial_state 0)\<lparr>inputValue := ?padded\<rparr>))) =
     [\<lparr>url = ''https://api/chat'', req_method = POST,
        headers = [(''Content-Type'', ''application/json'')],
        body = Some (JObj [(''query'', JStr ''What is SLAM?''),
                           (''chapter'', JNull),
                           (''selected_text'', JNull),
                           (''stream'', JBool False)])\<rparr>]"
    using handleSubmit_sends_null_filters [of "''https://api''" ?f 1 2
        "(initial_state 0)\<lparr>inputValue := ?padded\<rparr>"]
    by (simp only: s t) simp
  have c2: "requests_sent (fst (handleSubmit ''https://api'' ?f 1 2 ((initial_state 0)\<lparr>inputValue := ?blank\<rparr>))) = []"
    using handleSubmit_sends_null_filters [of "''https://api''" ?f 1 2
        "(initial_state 0)\<lparr>inputValue := ?blank\<rparr>"]
    by (simp only: s t) simp
  from c1 c2 show ?thesis by blast
qed

lemma handleFeedback_success:
  assumes "snd (submitFeedback b f mid ft) = Inr v"
  shows "snd (handleFeedback b f mid ft st) =
     st\<lparr>messages := map (\<lambda>msg. if messageId msg = Val (JStr mid)
                                 then msg\<lparr>feedback := Val (JStr ft)\<rparr> else msg) (messages st)\<rparr>"
  using assms by (cases "submitFeedback b f mid ft") (simp add: handleFeedback_def)

lemma map_update_unique:
  assumes "k < length xs" "P (xs ! k)" "\<forall>j < length xs. j \<noteq> k \<longrightarrow> \<not> P (xs ! j)"
  shows "map (\<lambda>x. if P x then g x else x) xs = xs[k := g (xs ! k)]"
  using assms by (intro nth_equalityI) (auto simp: nth_list_update)

text \<open>
  Claim C4. After a feedback submission that succeeded, \<^verbatim>\<open>handleFeedback\<close> leaves the
  message list at its length; every message whose \<^verbatim>\<open>messageId\<close> is the submitted id is
  the old message with only \<^verbatim>\<open>feedback\<close> set, and every other message is unchanged. When
  the id is known and belongs to one message only, the new list is the old one updated
  at that message's position. The other cells of the state are unchanged.
\<close>

theorem handleFeedback_updates_only_matching:
  assumes "snd (submitFeedback b f mid ft) = Inr v"
  shows "length (messages (snd (handleFeedback b f mid ft st))) = length (messages st)
    \<and> (\<forall>i < length (messages st).
          messages (snd (handleFeedback b f mid ft st)) ! i =
            (if messageId (messages st ! i) = Val (JStr mid)
             then (messages st ! i)\<lparr>feedback := Val (JStr ft)\<rparr>
             else messages st ! i))
    \<and> (\<forall>k < length (messages st).
          messageId (messages st ! k) = Val (JStr mid) \<and>
          (\<forall>j < length (messages st). j \<noteq> k \<longrightarrow> messageId (messages st ! j) \<noteq> Val (JStr mid))
          \<longrightarrow> messages (snd (handleFeedback b f mid ft st))
                = (messages st)[k := (messages st ! k)\<lparr>feedback := Val (JStr ft)\<rparr>])
    \<and> isOpen (snd (handleFeedback b f mid ft st)) = isOpen st
    \<and> inputValue (snd (handleFeedback b f mid ft st)) = inputValue st
    \<and> isLoading (snd (handleFeedback b f mid ft st)) = isLoading st
    \<and> error (snd (handleFeedback b f mid ft st)) = error st"
proof -
  note eq = handleFeedback_success [OF assms, of st]
  have "\<forall>k < length (messages st).
          messageId (messages st ! k) = Val (JStr mid) \<and>
          (\<forall>j < length (messages st). j \<noteq> k \<longrightarrow> messageId (messages st ! j) \<noteq> Val (JStr mid))
          \<longrightarrow> messages (snd (handleFeedback b f mid ft st))
                = (messages st)[k := (messages st ! k)\<lparr>feedback := Val (JStr ft)\<rparr>]"
  proof (intro allI impI)
    fix k assume k: "k < length (messages st)"
      and u: "messageId (messages st ! k) = Val (JStr mid) \<and>
          (\<forall>j < length (messages st). j \<noteq> k \<longrightarrow> messageId (messages st ! j) \<noteq> Val (JStr mid))"
    show "messages (snd (handleFeedback b f mid ft st))
                = (messages st)[k := (messages st ! k)\<lparr>feedback := Val (JStr ft)\<rparr>]"
      unfolding eq using k u
      by (simp add: map_update_unique [where P = "\<lambda>m. messageId m = Val (JStr mid)" and k = k])
  qed
  then show ?thesis by (simp add: eq)
qed

theorem handleFeedback_updates_only_matching_witness:
  "messages (snd (handleFeedback ''https://api''
      (\<lambda>r. Resolved \<lparr>status = 200, json_result = Inr (JObj [(''id'', JStr ''m1''), (''feedback'', JStr ''helpful'')])\<rparr>)
      ''m1'' ''helpful''
      \<lparr>isOpen = True,
       messages =
         [\<lparr>mtype = User, content = Val (JStr ''What is SLAM?''), timestamp = DateNow 1,
            sources = Undefined, confidence = Undefined, messageId = Undefined, feedback = Undefined\<rparr>,
          \<lparr>mtype = Bot, content = Val (JStr ''Mapping while localizing.''), timestamp = DateOf (Val (JStr ''2025-12-09'')),
            sources = Val (JArr []), confidence = Val (JNum ''0.9''), messageId = Val (JStr ''m1''), feedback = Undefined\<rparr>,
          \<lparr>mtype = Bot, content = Val (JStr ''A planner.''), timestamp = DateOf (Val (JStr ''2025-12-09'')),
            sources = Val (JArr []), confidence = Val (JNum ''0.8''), messageId = Val (JStr ''m2''), feedback = Undefined\<rparr>],
       inputValue = ''next'', isLoading = False, error = None\<rparr>))
   = [\<lparr>mtype = User, content = Val (JStr ''What is SLAM?''), timestamp = DateNow 1,
        sources = Undefined, confidence = Undefined, messageId = Undefined, feedback = Undefined\<rparr>,
      \<lparr>mtype = Bot, content = Val (JStr ''Mapping while localizing.''), timestamp = DateOf (Val (JStr ''2025-12-09'')),
        sources = Val (JArr []), confidence = Val (JNum ''0.9''), messageId = Val (JStr ''m1''),
        feedback = Val (JStr ''helpful'')\<rparr>,
      \<lparr>mtype = Bot, content = Val (JStr ''A planner.''), timestamp = DateOf (Val (JStr ''2025-12-09'')),
        sources = Val (JArr []), confidence = Val (JNum ''0.8''), messageId = Val (JStr ''m2''), feedback = Undefined\<rparr>]"
proof -
  let ?f = "\<lambda>r::request. Resolved \<lparr>status = 200, json_result = Inr (JObj [(''id'', JStr ''m1''), (''feedback'', JStr ''helpful'')])\<rparr>"
  let ?ms = "[\<lparr>mtype = User, content = Val (JStr ''What is SLAM?''), timestamp = DateNow 1,
            sources = Undefined, confidence = Undefined, messageId = Undefined, feedback = Undefined\<rparr>,
          \<lparr>mtype = Bot, content = Val (JStr ''Mapping while localizing.''), timestamp = DateOf (Val (JStr ''2025-12-09'')),
            sources = Val (JArr []), confidence = Val (JNum ''0.9''), messageId = Val (JStr ''m1''), feedback = Undefined\<rparr>,
          \<lparr>mtype = Bot, content = Val (JStr ''A planner.''), timestamp = DateOf (Val (JStr ''2025-12-09'')),
            sources = Val (JArr []), confidence = Val (JNum ''0.8''), messageId = Val (JStr ''m2''), feedback = Undefined\<rparr>]"
  let ?st = "\<lparr>isOpen = True, messages = ?ms, inputValue = ''next'', isLoading = False, error = None\<rparr>"
  have ok200: "snd (submitFeedback ''https://api'' ?f ''m1'' ''helpful'')
      = Inr (JObj [(''id'', JStr ''m1''), (''feedback'', JStr ''helpful'')])"
    by (simp add: submitFeedback_def Let_def ok_def)
  have len: "length (messages ?st) = 3" by simp
  have known: "(1::nat) < length (messages ?st)" by simp
  have uniq: "messageId (messages ?st ! 1) = Val (JStr ''m1'') \<and>
      (\<forall>j < length (messages ?st). j \<noteq> 1 \<longrightarrow> messageId (messages ?st ! j) \<noteq> Val (JStr ''m1''))"
    by (simp add: less_Suc_eq numeral_3_eq_3)
  from handleFeedback_updates_only_matching [OF ok200, of ?st]
  have "\<forall>k < length (messages ?st).
          messageId (messages ?st ! k) = Val (JStr ''m1'') \<and>
          (\<forall>j < length (messages ?st). j \<noteq> k \<longrightarrow> messageId (messages ?st ! j) \<noteq> Val (JStr ''m1''))
          \<longrightarrow> messages (snd (handleFeedback ''https://api'' ?f ''m1'' ''helpful'' ?st))
                = (messages ?st)[k := (messages ?st ! k)\<lparr>feedback := Val (JStr ''helpful'')\<rparr>]"
    by blast
  with known uniq
  have "messages (snd (handleFeedback ''https://api'' ?f ''m1'' ''helpful'' ?st))
                = (messages ?st)[1 := (messages ?st ! 1)\<lparr>feedback := Val (JStr ''helpful'')\<rparr>]"
    by blast
  then show ?thesis by simp
qed

section \<open>Properties of the backend pipeline\<close>

text \<open>
  Claim C7. For the empty document the chunker returns the empty sequence of chunks,
  whatever the configuration; being a list, the result is not an error.
\<close>

theorem empty_document_no_chunks:
  "chunk cfg \<lparr>doc_id = d, doc_text = []\<rparr> = []"
  by (simp add: chunk_def spans.simps)

theorem empty_document_no_chunks_witness:
  "chunk \<lparr>max_chunk_size = 1000, overlap_size = 200\<rparr> \<lparr>doc_id = ''week-1'', doc_text = []\<rparr> = []"
  by (rule empty_document_no_chunks)

text \<open>
  Claim C1. When the embedding of the search text succeeds and the search returns an
  empty Retrieved Context, \<open>query\<close> makes no call to the Completion Client and returns the
  fixed "no relevant content found" answer with no sources and confidence 0.
\<close>

theorem empty_context_skips_generation:
  assumes "embed_one (case selected_text of Some sel \<Rightarrow> sel @ question | None \<Rightarrow> question) = Inr qv"
    and "search sim (scoped chapter_filter idx) qv (top_k cfg) (min_score cfg) = []"
  shows "filter is_completion
           (fst (query cfg embed_one sim idx generate env question chapter_filter selected_text)) = []
       \<and> snd (query cfg embed_one sim idx generate env question chapter_filter selected_text)
           = Inr \<lparr>answer = no_relevant_content, result_sources = [],
                  result_confidence = 0, latency = elapsed_ms env\<rparr>"
  using assms by (simp add: query_def Let_def)

theorem empty_context_skips_generation_witness:
  "search (\<lambda>a b. sum_list (map2 (*) a b))
      (scoped None
        [((''week-6'', 0), [1, 0], \<lparr>p_source = ''week-6'', p_section = ''SLAM'', p_text = ''SLAM builds a map.'', p_sequence = 0\<rparr>)])
      [0, 1] 5 (7/10) = []
   \<and> filter is_completion
        (fst (query \<lparr>top_k = 5, min_score = 7/10, max_tokens = 1000, temperature = 7/10\<rparr>
           (\<lambda>t. Inr [0, 1]) (\<lambda>a b. sum_list (map2 (*) a b))
           [((''week-6'', 0), [1, 0], \<lparr>p_source = ''week-6'', p_section = ''SLAM'', p_text = ''SLAM builds a map.'', p_sequence = 0\<rparr>)]
           (\<lambda>sp up mt tp. Inr ''generated'')
           \<lparr>fresh_id = ''id-1'', clock = 10, elapsed_ms = 42\<rparr>
           ''What is the airspeed velocity of an unladen swallow?'' None None)) = []
   \<and> snd (query \<lparr>top_k = 5, min_score = 7/10, max_tokens = 1000, temperature = 7/10\<rparr>
           (\<lambda>t. Inr [0, 1]) (\<lambda>a b. sum_list (map2 (*) a b))
           [((''week-6'', 0), [1, 0], \<lparr>p_source = ''week-6'', p_section = ''SLAM'', p_text = ''SLAM builds a map.'', p_sequence = 0\<rparr>)]
           (\<lambda>sp up mt tp. Inr ''generated'')
           \<lparr>fresh_id = ''id-1'', clock = 10, elapsed_ms = 42\<rparr>
           ''What is the airspeed velocity of an unladen swallow?'' None None)
       = Inr \<lparr>answer = ''No relevant content found.'', result_sources = [],
              result_confidence = 0, latency = 42\<rparr>"
proof -
  let ?cfg = "\<lparr>top_k = 5, min_score = 7/10, max_tokens = 1000, temperature = 7/10\<rparr>"
  let ?emb = "\<lambda>t::string. Inr [0, 1] :: error + vector"
  let ?sim = "\<lambda>a b :: vector. sum_list (map2 (*) a b)"
  let ?idx = "[((''week-6'', 0), [1, 0], \<lparr>p_source = ''week-6'', p_section = ''SLAM'', p_text = ''SLAM builds a map.'', p_sequence = 0\<rparr>)] :: index"
  let ?q = "''What is the airspeed velocity of an unladen swallow?''"
  have h2: "search ?sim (scoped None ?idx) [0, 1] (top_k ?cfg) (min_score ?cfg) = []"
    by (simp add: search_def scoped_def)
  from empty_context_skips_generation [where embed_one = ?emb and selected_text = None
      and question = ?q and qv = "[0, 1]" and sim = ?sim and chapter_filter = None
      and idx = ?idx and cfg = ?cfg and generate = "\<lambda>sp up mt tp. Inr ''generated''"
      and env = "\<lparr>fresh_id = ''id-1'', clock = 10, elapsed_ms = 42\<rparr>"] h2
  show ?thesis by (simp add: no_relevant_content_def)
qed

lemma search_length: "length (search sim idx qv k m) \<le> k"
  by (simp add: search_def)

lemma search_scores: "(p, s) \<in> set (search sim idx qv k m) \<Longrightarrow> m \<le> s"
proof -
  assume "(p, s) \<in> set (search sim idx qv k m)"
  then have "(p, s) \<in> set (filter (\<lambda>(p, s). m \<le> s) (map (\<lambda>(k, v, p). (p, sim qv v)) idx))"
    unfolding search_def by (auto dest: in_set_takeD)
  then show "m \<le> s" by simp
qed

lemma search_descending: "sorted_wrt (\<lambda>a b. snd b \<le> snd a) (search sim idx qv k m)"
proof -
  let ?xs = "filter (\<lambda>(p, s). m \<le> s) (map (\<lambda>(k, v, p). (p, sim qv v)) idx)"
  let ?key = "\<lambda>(p :: payload, s :: real). - s"
  have "sorted (map ?key (sort_key ?key ?xs))" by (rule sorted_sort_key)
  then have "sorted_wrt (\<lambda>a b. ?key a \<le> ?key b) (sort_key ?key ?xs)"
    by (simp add: sorted_map)
  then have "sorted_wrt (\<lambda>a b. snd b \<le> snd a) (sort_key ?key ?xs)"
    by (rule sorted_wrt_mono_rel [rotated]) (auto simp: case_prod_beta)
  then show ?thesis
    unfolding search_def by (rule sorted_wrt_take)
qed

lemma search_nothing_clears:
  assumes "\<forall>(k, v, p) \<in> set idx. sim qv v < m"
  shows "search sim idx qv k' m = []"
proof -
  have "filter (\<lambda>(p, s). m \<le> s) (map (\<lambda>(k, v, p). (p, sim qv v)) idx) = []"
    using assms by (auto simp: filter_empty_conv)
  then show ?thesis by (simp add: search_def)
qed

text \<open>
  Claim C2. Every search returns at most \<open>k\<close> entries, each with a score of at least
  the minimum \<open>m\<close>, in descending order of score; and when every stored record scores
  below \<open>m\<close> the result is the empty sequence.
\<close>

theorem search_contract:
  "length (search sim idx qv k m) \<le> k
   \<and> (\<forall>(p, s) \<in> set (search sim idx qv k m). m \<le> s)
   \<and> sorted_wrt (\<lambda>a b. snd b \<le> snd a) (search sim idx qv k m)
   \<and> ((\<forall>(i, v, p) \<in> set idx. sim qv v < m) \<longrightarrow> search sim idx qv k m = [])"
  using search_length [of sim idx qv k m] search_scores [of _ _ sim idx qv k m]
    search_descending [of sim idx qv k m] search_nothing_clears [of idx sim qv m k]
  by auto

theorem search_contract_witness:
  "length (search (\<lambda>a b. sum_list (map2 (*) a b))
     [((''w1'', 0), [1, 0], \<lparr>p_source = ''w1'', p_section = ''S'', p_text = ''alpha'', p_sequence = 0\<rparr>),
      ((''w1'', 1), [1/2, 1/2], \<lparr>p_source = ''w1'', p_section = ''S'', p_text = ''beta'', p_sequence = 1\<rparr>),
      ((''w2'', 0), [4/5, 1/10], \<lparr>p_source = ''w2'', p_section = ''T'', p_text = ''gamma'', p_sequence = 0\<rparr>)]
     [1, 0] 1 (7/10)) \<le> 1
   \<and> search (\<lambda>a b. sum_list (map2 (*) a b))
     [((''w1'', 0), [1, 0], \<lparr>p_source = ''w1'', p_section = ''S'', p_text = ''alpha'', p_sequence = 0\<rparr>),
      ((''w1'', 1), [1/2, 1/2], \<lparr>p_source = ''w1'', p_section = ''S'', p_text = ''beta'', p_sequence = 1\<rparr>),
      ((''w2'', 0), [4/5, 1/10], \<lparr>p_source = ''w2'', p_section = ''T'', p_text = ''gamma'', p_sequence = 0\<rparr>)]
     [1, 0] 2 (7/10)
     = [(\<lparr>p_source = ''w1'', p_section = ''S'', p_text = ''alpha'', p_sequence = 0\<rparr>, 1),
        (\<lparr>p_source = ''w2'', p_section = ''T'', p_text = ''gamma'', p_sequence = 0\<rparr>, 4/5)]
   \<and> search (\<lambda>a b. sum_list (map2 (*) a b))
     [((''w1'', 0), [1, 0], \<lparr>p_source = ''w1'', p_section = ''S'', p_text = ''alpha'', p_sequence = 0\<rparr>),
      ((''w1'', 1), [1/2, 1/2], \<lparr>p_source = ''w1'', p_section = ''S'', p_text = ''beta'', p_sequence = 1\<rparr>),
      ((''w2'', 0), [4/5, 1/10], \<lparr>p_source = ''w2'', p_section = ''T'', p_text = ''gamma'', p_sequence = 0\<rparr>)]
     [0, 1] 5 (7/10) = []"
proof -
  let ?sim = "\<lambda>a b :: vector. sum_list (map2 (*) a b)"
  let ?idx = "[((''w1'', 0), [1, 0], \<lparr>p_source = ''w1'', p_section = ''S'', p_text = ''alpha'', p_sequence = 0\<rparr>),
      ((''w1'', 1), [1/2, 1/2], \<lparr>p_source = ''w1'', p_section = ''S'', p_text = ''beta'', p_sequence = 1\<rparr>),
      ((''w2'', 0), [4/5, 1/10], \<lparr>p_source = ''w2'', p_section = ''T'', p_text = ''gamma'', p_sequence = 0\<rparr>)] :: index"
  have below: "\<forall>(i, v, p) \<in> set ?idx. ?sim [0, 1] v < 7/10"
    by simp
  have c1: "length (search ?sim ?idx [1, 0] 1 (7/10)) \<le> 1"
    using search_contract [of ?sim ?idx "[1, 0]" 1 "7/10"] by blast
  have c2: "search ?sim ?idx [0, 1] 5 (7/10) = []"
    using search_contract [of ?sim ?idx "[0, 1]" 5 "7/10"] below by blast
  have c3: "search ?sim ?idx [1, 0] 2 (7/10)
     = [(\<lparr>p_source = ''w1'', p_section = ''S'', p_text = ''alpha'', p_sequence = 0\<rparr>, 1),
        (\<lparr>p_source = ''w2'', p_section = ''T'', p_text = ''gamma'', p_sequence = 0\<rparr>, 4/5)]"
    by code_simp
  from c1 c3 c2 show ?thesis by blast
qed

lemma spans_head:
  assumes "ov < maxc" "spans t maxc ov s = (a, b) # rest"
  shows "a = s \<and> b \<le> length t \<and> (s + ov < length t \<longrightarrow> s + ov < b)"
  using assms cut_point_bounds [of ov maxc s t]
  by (subst (asm) spans.simps) (auto split: if_splits)

lemma spans_adjacent:
  assumes "ov < maxc" "Suc i < length (spans t maxc ov s)"
  shows "\<exists>a b d. spans t maxc ov s ! i = (a, b) \<and> spans t maxc ov s ! Suc i = (b - ov, d)
           \<and> a + ov < b \<and> b \<le> d \<and> d \<le> length t"
  using assms
proof (induction t maxc ov s arbitrary: i rule: spans.induct)
  case (1 t maxc ov start)
  let ?e = "cut_point t maxc ov start"
  from "1.prems" have more: "\<not> (length t \<le> start \<or> maxc \<le> ov)" "\<not> length t \<le> start + maxc"
    by (auto simp: spans.simps [of t maxc ov start] split: if_splits)
  then have unfold: "spans t maxc ov start = (start, ?e) # spans t maxc ov (?e - ov)"
    by (simp add: spans.simps [of t maxc ov start])
  have cut: "start + ov < ?e" "?e \<le> start + maxc"
    using cut_point_bounds [of ov maxc start t] "1.prems"(1) by auto
  show ?case
  proof (cases i)
    case 0
    from "1.prems"(2) unfold obtain c d rest where nxt: "spans t maxc ov (?e - ov) = (c, d) # rest"
      by (cases "spans t maxc ov (?e - ov)") auto
    from spans_head [OF "1.prems"(1) nxt] cut more
    have "c = ?e - ov" "d \<le> length t" "?e < d" by auto
    with 0 unfold nxt cut show ?thesis by simp
  next
    case (Suc j)
    with "1.prems"(2) unfold have "Suc j < length (spans t maxc ov (?e - ov))" by simp
    from "1.IH" [OF more "1.prems"(1) this] Suc unfold show ?thesis by simp
  qed
qed

lemma length_chunk:
  "length (chunk cfg doc) = length (spans (doc_text doc) (max_chunk_size cfg) (overlap_size cfg) 0)"
  by (simp add: chunk_def)

lemma raw_text_chunk:
  assumes "i < length (chunk cfg doc)"
    and "spans (doc_text doc) (max_chunk_size cfg) (overlap_size cfg) 0 ! i = (a, b)"
  shows "raw_text (chunk cfg doc ! i) = take (b - a) (drop a (doc_text doc))"
  using assms by (simp add: chunk_def nth_enumerate_eq)

text \<open>
  Claim C5. With a configuration that passed the startup check, any two adjacent chunks
  of a document overlap: the last \<open>ov\<close> characters of chunk \<open>i\<close> are the first \<open>ov\<close>
  characters of chunk \<open>i + 1\<close>, and these are a full \<open>ov\<close> characters (the next chunk is
  never cut short of the overlap by the end of the document).
\<close>

theorem adjacent_chunks_overlap:
  assumes "make_chunker maxc ov = Inr cfg" and "Suc i < length (chunk cfg doc)"
  shows "drop (length (raw_text (chunk cfg doc ! i)) - ov) (raw_text (chunk cfg doc ! i))
           = take ov (raw_text (chunk cfg doc ! Suc i))
       \<and> length (take ov (raw_text (chunk cfg doc ! Suc i))) = ov"
proof -
  from assms(1) have cfg: "max_chunk_size cfg = maxc" "overlap_size cfg = ov" "ov < maxc"
    by (auto simp: make_chunker_def split: if_splits)
  let ?t = "doc_text doc"
  from assms(2) have len: "Suc i < length (spans ?t maxc ov 0)"
    by (simp add: length_chunk cfg)
  from spans_adjacent [OF cfg(3) len] obtain a b d
    where sp: "spans ?t maxc ov 0 ! i = (a, b)" "spans ?t maxc ov 0 ! Suc i = (b - ov, d)"
      and bounds: "a + ov < b" "b \<le> d" "d \<le> length ?t"
    by blast
  have this_chunk: "raw_text (chunk cfg doc ! i) = take (b - a) (drop a ?t)"
    using raw_text_chunk [of i cfg doc a b] assms(2) sp(1) by (simp add: cfg)
  have next_chunk: "raw_text (chunk cfg doc ! Suc i) = take (d - (b - ov)) (drop (b - ov) ?t)"
    using raw_text_chunk [of "Suc i" cfg doc "b - ov" d] assms(2) sp(2) by (simp add: cfg)
  have l: "length (take (b - a) (drop a ?t)) = b - a"
    using bounds by simp
  have tail: "drop (b - a - ov) (take (b - a) (drop a ?t)) = take ov (drop (b - ov) ?t)"
    using bounds by (simp add: drop_take)
  have head: "take ov (take (d - (b - ov)) (drop (b - ov) ?t)) = take ov (drop (b - ov) ?t)"
  proof -
    have "min ov (d - (b - ov)) = ov" using bounds by arith
    then show ?thesis by simp
  qed
  have full: "length (take ov (drop (b - ov) ?t)) = ov"
    using bounds by simp
  show ?thesis
    unfolding this_chunk next_chunk l tail head using full by simp
qed

theorem adjacent_chunks_overlap_witness:
  "make_chunker 12 3 = Inr \<lparr>max_chunk_size = 12, overlap_size = 3\<rparr>
   \<and> map raw_text (chunk \<lparr>max_chunk_size = 12, overlap_size = 3\<rparr>
        \<lparr>doc_id = ''week-1'', doc_text = ''Hello. World is big.''\<rparr>)
       = [''Hello. '', ''o. World is '', ''is big.'']
   \<and> drop (length (raw_text (chunk \<lparr>max_chunk_size = 12, overlap_size = 3\<rparr>
        \<lparr>doc_id = ''week-1'', doc_text = ''Hello. World is big.''\<rparr> ! 0)) - 3)
        (raw_text (chunk \<lparr>max_chunk_size = 12, overlap_size = 3\<rparr>
        \<lparr>doc_id = ''week-1'', doc_text = ''Hello. World is big.''\<rparr> ! 0))
       = take 3 (raw_text (chunk \<lparr>max_chunk_size = 12, overlap_size = 3\<rparr>
        \<lparr>doc_id = ''week-1'', doc_text = ''Hello. World is big.''\<rparr> ! Suc 0))
   \<and> take 3 (raw_text (chunk \<lparr>max_chunk_size = 12, overlap_size = 3\<rparr>
        \<lparr>doc_id = ''week-1'', doc_text = ''Hello. World is big.''\<rparr> ! Suc 0)) = ''o. ''"
proof -
  let ?cfg = "\<lparr>max_chunk_size = 12, overlap_size = 3\<rparr>"
  let ?doc = "\<lparr>doc_id = ''week-1'', doc_text = ''Hello. World is big.''\<rparr>"
  have h1: "make_chunker 12 3 = Inr ?cfg"
    by (simp add: make_chunker_def)
  have texts: "map raw_text (chunk ?cfg ?doc) = [''Hello. '', ''o. World is '', ''is big.'']"
    by code_simp
  then have "length (map raw_text (chunk ?cfg ?doc)) = 3" by simp
  then have h2: "Suc 0 < length (chunk ?cfg ?doc)" by simp
  have "raw_text (chunk ?cfg ?doc ! Suc 0) = map raw_text (chunk ?cfg ?doc) ! Suc 0"
    using h2 by (simp only: nth_map)
  then have nxt: "take 3 (raw_text (chunk ?cfg ?doc ! Suc 0)) = ''o. ''"
    by (simp add: texts)
  from adjacent_chunks_overlap [OF h1 h2] h1 texts nxt show ?thesis
    by blast
qed

lemma embed_batch_length: "embed_batch embed_one ts = Inr vs \<Longrightarrow> length vs = length ts"
  by (induction ts arbitrary: vs) (auto split: sum.splits)

lemma upsert_keys: "set (map fst (upsert rs idx)) = set (map fst idx) \<union> set (map fst rs)"
  by (induction rs idx rule: upsert.induct) (auto simp: dom_update)

lemma upsert_present:
  "set (map fst rs) \<subseteq> set (map fst idx) \<Longrightarrow> map fst (upsert rs idx) = map fst idx"
  by (induction rs idx rule: upsert.induct) (auto simp: update_keys)

lemma upsert_distinct: "distinct (map fst idx) \<Longrightarrow> distinct (map fst (upsert rs idx))"
  by (induction rs idx rule: upsert.induct) (auto simp: distinct_update)

lemma to_record_keys:
  "length vs = length cs \<Longrightarrow> map fst (map2 to_record cs vs) = map record_id_of cs"
  by (induction cs vs rule: list_induct2') (auto simp: to_record_def)

lemma ingest_docs_keys:
  "ingest_docs cfg embed_one docs idx = Inr (n, idx') \<Longrightarrow>
     set (map fst idx') = set (map fst idx) \<union> (\<Union>d \<in> set docs. record_id_of ` set (chunk cfg d))"
proof (induction docs arbitrary: idx n idx')
  case Nil
  then show ?case by simp
next
  case (Cons d ds)
  from Cons.prems obtain vs m where
    vs: "embed_batch embed_one (map raw_text (chunk cfg d)) = Inr vs"
    and rest: "ingest_docs cfg embed_one ds (upsert (map2 to_record (chunk cfg d) vs) idx) = Inr (m, idx')"
    by (auto split: sum.splits)
  from embed_batch_length [OF vs] have "length vs = length (chunk cfg d)" by simp
  then have "set (map fst (map2 to_record (chunk cfg d) vs)) = record_id_of ` set (chunk cfg d)"
    by (simp only: to_record_keys set_map)
  with Cons.IH [OF rest] show ?case
    by (simp only: upsert_keys) auto
qed

lemma ingest_docs_present:
  "(\<Union>d \<in> set docs. record_id_of ` set (chunk cfg d)) \<subseteq> set (map fst idx) \<Longrightarrow>
   ingest_docs cfg embed_one docs idx = Inr (n, idx') \<Longrightarrow> map fst idx' = map fst idx"
proof (induction docs arbitrary: idx n idx')
  case Nil
  then show ?case by simp
next
  case (Cons d ds)
  from Cons.prems(2) obtain vs m where
    vs: "embed_batch embed_one (map raw_text (chunk cfg d)) = Inr vs"
    and rest: "ingest_docs cfg embed_one ds (upsert (map2 to_record (chunk cfg d) vs) idx) = Inr (m, idx')"
    by (auto split: sum.splits)
  from embed_batch_length [OF vs] have "length vs = length (chunk cfg d)" by simp
  then have keys: "set (map fst (map2 to_record (chunk cfg d) vs)) = record_id_of ` set (chunk cfg d)"
    by (simp only: to_record_keys set_map)
  with Cons.prems(1) have sub: "set (map fst (map2 to_record (chunk cfg d) vs)) \<subseteq> set (map fst idx)"
    by auto
  have same: "map fst (upsert (map2 to_record (chunk cfg d) vs) idx) = map fst idx"
    by (rule upsert_present [OF sub])
  from Cons.prems(1) have "(\<Union>d \<in> set ds. record_id_of ` set (chunk cfg d))
      \<subseteq> set (map fst (upsert (map2 to_record (chunk cfg d) vs) idx))"
    by (simp only: same) auto
  from Cons.IH [OF this rest] same show ?case by simp
qed

lemma ingest_docs_distinct:
  "distinct (map fst idx) \<Longrightarrow> ingest_docs cfg embed_one docs idx = Inr (n, idx') \<Longrightarrow>
     distinct (map fst idx')"
proof (induction docs arbitrary: idx n idx')
  case Nil
  then show ?case by simp
next
  case (Cons d ds)
  from Cons.prems(2) obtain vs m where
    rest: "ingest_docs cfg embed_one ds (upsert (map2 to_record (chunk cfg d) vs) idx) = Inr (m, idx')"
    by (auto split: sum.splits)
  from Cons.IH [OF upsert_distinct [OF Cons.prems(1)] rest] show ?case .
qed

lemma ingest_docs_again:
  "ingest_docs cfg embed_one docs idx = Inr (n, idx') \<Longrightarrow>
     \<exists>idx''. ingest_docs cfg embed_one docs other = Inr (n, idx'')"
proof (induction docs arbitrary: idx n idx' other)
  case Nil
  then show ?case by simp
next
  case (Cons d ds)
  from Cons.prems obtain vs m where
    vs: "embed_batch embed_one (map raw_text (chunk cfg d)) = Inr vs"
    and rest: "ingest_docs cfg embed_one ds (upsert (map2 to_record (chunk cfg d) vs) idx) = Inr (m, idx')"
    and n: "n = length (chunk cfg d) + m"
    by (auto split: sum.splits)
  from Cons.IH [OF rest, of "upsert (map2 to_record (chunk cfg d) vs) other"]
  obtain idx'' where "ingest_docs cfg embed_one ds (upsert (map2 to_record (chunk cfg d) vs) other) = Inr (m, idx'')"
    by blast
  with vs n show ?case by simp
qed

text \<open>
  Claim C6. A second run of the Ingestion Job on the same documents, on the index the
  first run left, succeeds with the same report and leaves the same number of records
  under the same ids, without duplicate ids when the first run started without any. The
  number of records is also unchanged when the second run gets other vectors from the
  Embedding Client: the records are keyed by source and sequence alone.
\<close>

theorem ingestion_idempotent:
  assumes "run cfg embed_one docs idx0 = Inr (r1, idx1)"
  shows "\<exists>idx2. run cfg embed_one docs idx1 = Inr (r1, idx2)
           \<and> length idx2 = length idx1
           \<and> map fst idx2 = map fst idx1
           \<and> (distinct (map fst idx0) \<longrightarrow> distinct (map fst idx2))
           \<and> (\<forall>embed_two r3 idx3. run cfg embed_two docs idx1 = Inr (r3, idx3)
                 \<longrightarrow> length idx3 = length idx1)"
proof -
  from assms obtain n where
    first: "ingest_docs cfg embed_one docs idx0 = Inr (n, idx1)"
    and r1: "r1 = \<lparr>documents_processed = length docs, chunks_ingested = n\<rparr>"
    by (auto simp: run_def split: sum.splits)
  from ingest_docs_again [OF first, of idx1] obtain idx2 where
    second: "ingest_docs cfg embed_one docs idx1 = Inr (n, idx2)"
    by blast
  from ingest_docs_keys [OF first]
  have "(\<Union>d \<in> set docs. record_id_of ` set (chunk cfg d)) \<subseteq> set (map fst idx1)"
    by auto
  note present = this
  from ingest_docs_present [OF present second] have keys: "map fst idx2 = map fst idx1" .
  then have "length (map fst idx2) = length (map fst idx1)" by simp
  then have len: "length idx2 = length idx1" by simp
  have other: "\<forall>embed_two r3 idx3. run cfg embed_two docs idx1 = Inr (r3, idx3)
                 \<longrightarrow> length idx3 = length idx1"
  proof (intro allI impI)
    fix embed_two r3 idx3
    assume "run cfg embed_two docs idx1 = Inr (r3, idx3)"
    then obtain k where "ingest_docs cfg embed_two docs idx1 = Inr (k, idx3)"
      by (auto simp: run_def split: sum.splits)
    from ingest_docs_present [OF present this] have "map fst idx3 = map fst idx1" .
    then have "length (map fst idx3) = length (map fst idx1)" by simp
    then show "length idx3 = length idx1" by simp
  qed
  have "distinct (map fst idx0) \<longrightarrow> distinct (map fst idx2)"
    using ingest_docs_distinct [OF _ first] keys by auto
  with second r1 keys len other show ?thesis
    by (simp add: run_def)
qed

theorem ingestion_idempotent_witness:
  "run \<lparr>max_chunk_size = 12, overlap_size = 3\<rparr> (\<lambda>t. Inr [1, 0])
     [\<lparr>doc_id = ''week-1'', doc_text = ''Hello. World is big.''\<rparr>] []
    = Inr (\<lparr>documents_processed = 1, chunks_ingested = 3\<rparr>,
      [((''week-1'', 0), [1, 0], \<lparr>p_source = ''week-1'', p_section = [], p_text = ''Hello. '', p_sequence = 0\<rparr>),
       ((''week-1'', 1), [1, 0], \<lparr>p_source = ''week-1'', p_section = [], p_text = ''o. World is '', p_sequence = 1\<rparr>),
       ((''week-1'', 2), [1, 0], \<lparr>p_source = ''week-1'', p_section = [], p_text = ''is big.'', p_sequence = 2\<rparr>)])
   \<and> (\<exists>idx2. run \<lparr>max_chunk_size = 12, overlap_size = 3\<rparr> (\<lambda>t. Inr [1, 0])
         [\<lparr>doc_id = ''week-1'', doc_text = ''Hello. World is big.''\<rparr>]
         [((''week-1'', 0), [1, 0], \<lparr>p_source = ''week-1'', p_section = [], p_text = ''Hello. '', p_sequence = 0\<rparr>),
          ((''week-1'', 1), [1, 0], \<lparr>p_source = ''week-1'', p_section = [], p_text = ''o. World is '', p_sequence = 1\<rparr>),
          ((''week-1'', 2), [1, 0], \<lparr>p_source = ''week-1'', p_section = [], p_text = ''is big.'', p_sequence = 2\<rparr>)]
        = Inr (\<lparr>documents_processed = 1, chunks_ingested = 3\<rparr>, idx2)
        \<and> length idx2 = 3 \<and> distinct (map fst idx2))
   \<and> length (snd (projr (run \<lparr>max_chunk_size = 12, overlap_size = 3\<rparr> (\<lambda>t. Inr [0, 1])
         [\<lparr>doc_id = ''week-1'', doc_text = ''Hello. World is big.''\<rparr>]
         [((''week-1'', 0), [1, 0], \<lparr>p_source = ''week-1'', p_section = [], p_text = ''Hello. '', p_sequence = 0\<rparr>),
          ((''week-1'', 1), [1, 0], \<lparr>p_source = ''week-1'', p_section = [], p_text = ''o. World is '', p_sequence = 1\<rparr>),
          ((''week-1'', 2), [1, 0], \<lparr>p_source = ''week-1'', p_section = [], p_text = ''is big.'', p_sequence = 2\<rparr>)]))) = 3"
proof -
  let ?cfg = "\<lparr>max_chunk_size = 12, overlap_size = 3\<rparr>"
  let ?emb = "\<lambda>t::string. Inr [1, 0] :: error + vector"
  let ?docs = "[\<lparr>doc_id = ''week-1'', doc_text = ''Hello. World is big.''\<rparr>]"
  let ?idx1 = "[((''week-1'', 0), [1, 0], \<lparr>p_source = ''week-1'', p_section = [], p_text = ''Hello. '', p_sequence = 0\<rparr>),
       ((''week-1'', 1), [1, 0], \<lparr>p_source = ''week-1'', p_section = [], p_text = ''o. World is '', p_sequence = 1\<rparr>),
       ((''week-1'', 2), [1, 0], \<lparr>p_source = ''week-1'', p_section = [], p_text = ''is big.'', p_sequence = 2\<rparr>)] :: index"
  have first: "run ?cfg ?emb ?docs [] = Inr (\<lparr>documents_processed = 1, chunks_ingested = 3\<rparr>, ?idx1)"
    by code_simp
  let ?idx3 = "[((''week-1'', 0), [0, 1], \<lparr>p_source = ''week-1'', p_section = [], p_text = ''Hello. '', p_sequence = 0\<rparr>),
       ((''week-1'', 1), [0, 1], \<lparr>p_source = ''week-1'', p_section = [], p_text = ''o. World is '', p_sequence = 1\<rparr>),
       ((''week-1'', 2), [0, 1], \<lparr>p_source = ''week-1'', p_section = [], p_text = ''is big.'', p_sequence = 2\<rparr>)] :: index"
  have other: "run ?cfg (\<lambda>t. Inr [0, 1]) ?docs ?idx1
      = Inr (\<lparr>documents_processed = 1, chunks_ingested = 3\<rparr>, ?idx3)"
    by code_simp
  from ingestion_idempotent [OF first] obtain idx2 where
    again: "run ?cfg ?emb ?docs ?idx1 = Inr (\<lparr>documents_processed = 1, chunks_ingested = 3\<rparr>, idx2)"
      "length idx2 = length ?idx1" "distinct (map fst ([] :: index)) \<longrightarrow> distinct (map fst idx2)"
    and any: "\<forall>embed_two r3 idx3. run ?cfg embed_two ?docs ?idx1 = Inr (r3, idx3)
                 \<longrightarrow> length idx3 = length ?idx1"
    by blast
  from any other have "length ?idx3 = length ?idx1" by blast
  then have third: "length (snd (projr (run ?cfg (\<lambda>t. Inr [0, 1]) ?docs ?idx1))) = 3"
    by (simp only: other sum.sel snd_conv) simp
  from again have "run ?cfg ?emb ?docs ?idx1 = Inr (\<lparr>documents_processed = 1, chunks_ingested = 3\<rparr>, idx2)
      \<and> length idx2 = 3 \<and> distinct (map fst idx2)"
    by simp
  with first third show ?thesis by blast
qed

end
